theory Spec2Isabelle
  imports Main "HOL-Library.Multiset" "HOL-Library.Char_ord" "HOL-Library.List_Lexorder"
begin

section \<open>Clinical decision support: safety engine and rules engine\<close>

text \<open>
  This theory embeds two services of the prescribing backend:
  \<^item> \<^verbatim>\<open>SafetyEngineService\<close> (safety-engine.service.ts): eight hazard checks over a
    patient context and a list of proposed medications, and their aggregation;
  \<^item> \<^verbatim>\<open>RulesEngineService\<close> (rules-engine.service.ts): rule matching, dose
    derivation, rationale text and the fallback recommendation.

  Conventions of the embedding.
  \<^item> Strings are \<open>char list\<close> and are taken to be ASCII; \<open>toLowerCase\<close> lowers
    \<open>A\<close>..\<open>Z\<close> and leaves every other character alone.
  \<^item> The TypeScript \<open>number\<close> fields that the engines read (age, weight, eGFR) are
    integers here. A JavaScript number is falsy exactly when it is \<open>0\<close> (or NaN), so the
    guard \<open>x && x < 50\<close> on an optional number is \<open>truthyNum x\<close> and a comparison.
  \<^item> An optional field (\<open>f?: T\<close>) is a \<open>T option\<close>; \<open>null\<close> and \<open>undefined\<close> are
    both \<open>None\<close>.
  \<^item> The Prisma client is a record of tables (lists of rows, in the order the database
    returns them); each query of the source is a list function over a table.
  \<^item> An exception is a value \<open>Inl e\<close> of a sum type.
  \<^item> Record fields keep the source's names; where two interfaces share a field name the
    field of the smaller interface carries a prefix (\<open>allergy_severity\<close>, \<open>rec_dose\<close>),
    and \<open>id\<close> and \<open>type\<close> are written \<open>med_id\<close> and \<open>alert_type\<close>.
  \<^item> A loop is a \<open>concat\<close> of a \<open>map\<close> over the list it runs through, so the alerts
    come in the order the source pushes them. Conditions, loop bodies and object literals
    that the source writes inline have a name here (\<open>directMatch\<close>, \<open>allergyAlertsFor\<close>,
    \<open>directMatchAlert\<close>, ...).
\<close>

subsection \<open>Strings and numbers of the host language\<close>

definition toLowerChar :: "char \<Rightarrow> char" where
  "toLowerChar c =
     (case map_of (zip ''ABCDEFGHIJKLMNOPQRSTUVWXYZ'' ''abcdefghijklmnopqrstuvwxyz'') c of
        Some l \<Rightarrow> l
      | None \<Rightarrow> c)"

definition toLowerCase :: "string \<Rightarrow> string" where
  "toLowerCase s = map toLowerChar s"

fun startsWith :: "string \<Rightarrow> string \<Rightarrow> bool" where
  "startsWith hay [] = True"
| "startsWith [] (n # ns) = False"
| "startsWith (h # hs) (n # ns) = (h = n \<and> startsWith hs ns)"

text \<open>\<^verbatim>\<open>hay.includes(needle)\<close>: the needle occurs as a contiguous run of the haystack.\<close>

fun includesStr :: "string \<Rightarrow> string \<Rightarrow> bool" where
  "includesStr [] needle = (needle = [])"
| "includesStr (h # hs) needle = (startsWith (h # hs) needle \<or> includesStr hs needle)"

text \<open>\<^verbatim>\<open>parts.join(' ')\<close>.\<close>

fun joinWith :: "string \<Rightarrow> string list \<Rightarrow> string" where
  "joinWith sep [] = []"
| "joinWith sep [p] = p"
| "joinWith sep (p # q # ps) = p @ sep @ joinWith sep (q # ps)"

definition digitChar :: "nat \<Rightarrow> char" where
  "digitChar d = ''0123456789'' ! d"

fun showNat :: "nat \<Rightarrow> string" where
  "showNat n = (if n < 10 then [digitChar n] else showNat (n div 10) @ [digitChar (n mod 10)])"

declare showNat.simps [simp del]

text \<open>
  The text a template literal inserts for an integer-valued number (of absolute value
  below \<open>10^21\<close>, where JavaScript still prints every digit).
\<close>

definition showNumber :: "int \<Rightarrow> string" where
  "showNumber i = (if i < 0 then CHR ''-'' # showNat (nat (- i)) else showNat (nat i))"

definition truthyNum :: "int option \<Rightarrow> bool" where
  "truthyNum x = (case x of None \<Rightarrow> False | Some v \<Rightarrow> v \<noteq> 0)"

definition truthyStr :: "string option \<Rightarrow> bool" where
  "truthyStr x = (case x of None \<Rightarrow> False | Some s \<Rightarrow> s \<noteq> [])"

definition truthyBool :: "bool option \<Rightarrow> bool" where
  "truthyBool x = (x = Some True)"

definition isDigit :: "char \<Rightarrow> bool" where
  "isDigit c = (c \<in> set ''0123456789'')"

definition digitVal :: "char \<Rightarrow> int" where
  "digitVal c =
     (case map_of (zip ''0123456789'' [0, 1, 2, 3, 4, 5, 6, 7, 8, 9]) c of
        Some d \<Rightarrow> d
      | None \<Rightarrow> 0)"

definition decimalValue :: "string \<Rightarrow> int" where
  "decimalValue ds = foldl (\<lambda>acc c. 10 * acc + digitVal c) 0 ds"

subsection \<open>Data model\<close>

datatype AlertType =
  ALLERGY | DRUG_INTERACTION | CONTRAINDICATION | DUPLICATE_THERAPY | DOSE_RANGE
| RENAL_ADJUSTMENT | HEPATIC_ADJUSTMENT | PREGNANCY_WARNING | LACTATION_WARNING | AGE_WARNING

datatype AlertSeverity = INFO | WARNING | CRITICAL

datatype AWaReCategory = ACCESS | WATCH | RESERVE | NOT_APPLICABLE

text \<open>The columns of a medication row that the two engines read.\<close>

record Medication =
  med_id :: string
  genericName :: string
  awaRe :: AWaReCategory
  isAntibiotic :: bool
  therapeuticClass :: "string option"
  strength :: string
  route :: string
  isActive :: bool

record Allergy =
  allergen :: string
  allergy_severity :: string

record Condition =
  cond_diagnosisCode :: string
  diagnosisName :: string

record CurrentMedication =
  cur_medicationId :: string
  cur_genericName :: string

record PatientContext =
  patient_id :: string
  age :: int
  weight :: "int option"
  gender :: string
  isPregnant :: "bool option"
  isLactating :: "bool option"
  renalFunction :: "int option"
  hepaticFunction :: "string option"
  allergies :: "Allergy list option"
  conditions :: "Condition list option"
  currentMedications :: "CurrentMedication list option"

record ClinicalContext =
  diagnosis :: string
  diagnosisCode :: "string option"
  ctx_severity :: "string option"

record ProposedMedication =
  medicationId :: string
  dose :: string

record SafetyAlert =
  alert_type :: AlertType
  severity :: AlertSeverity
  message :: string
  clinicalRationale :: "string option"
  recommendation :: "string option"
  canOverride :: bool

record SafetyCheckResult =
  safe :: bool
  alerts :: "SafetyAlert list"
  criticalAlerts :: "SafetyAlert list"
  requiresOverride :: bool

text \<open>
  A row of the interaction table as \<^verbatim>\<open>findFirst\<close> returns it with
  \<^verbatim>\<open>include: { drug1: true, drug2: true }\<close>: the two related medication rows are part
  of the result.
\<close>

record DrugInteraction =
  drug1Id :: string
  drug2Id :: string
  int_severity :: string
  description :: string
  management :: "string option"
  drug1 :: Medication
  drug2 :: Medication

text \<open>
  \<^verbatim>\<open>firstLineChoice\<close> and \<^verbatim>\<open>alternatives\<close> are JSON columns read as \<^verbatim>\<open>any\<close>; the
  engine reads \<^verbatim>\<open>drugId\<close>, \<^verbatim>\<open>medications?.[0]\<close> and \<^verbatim>\<open>reason\<close> of them.
\<close>

record FirstLineChoice =
  drugId :: "string option"
  medications :: "string list option"

record AlternativeChoice =
  alt_drugId :: "string option"
  reason :: "string option"

record ClinicalRule =
  rule_name :: string
  diagnosisCodes :: "string list"
  rule_isActive :: bool
  firstLineChoice :: FirstLineChoice
  rule_alternatives :: "AlternativeChoice list option"
  guidelineSource :: "string option"
  evidenceLevel :: "string option"
  updatedAt :: int

record DrugRecommendation =
  medication :: Medication
  rec_dose :: string
  frequency :: string
  rec_route :: string
  duration :: string
  rationale :: string
  isFirstLine :: bool
  alternativeReason :: "string option"
  confidence :: nat
  rec_guidelineSource :: "string option"
  rec_evidenceLevel :: "string option"

record RecommendationResult =
  primary :: DrugRecommendation
  alternatives :: "DrugRecommendation list"
  rulesApplied :: "string list"
  warnings :: "string list"

record Prisma =
  tbl_medication :: "Medication list"
  tbl_drugInteraction :: "DrugInteraction list"
  tbl_clinicalRule :: "ClinicalRule list"

text \<open>
  What the engines can throw: the two \<^verbatim>\<open>new Error(...)\<close> of the rules engine, the
  validation error of \<^verbatim>\<open>findUnique\<close> called with an undefined id, and the
  \<^verbatim>\<open>TypeError\<close> of calling \<^verbatim>\<open>push\<close> on something that is not an array.
\<close>

datatype error =
  PrimaryMedicationNotFound
| NoSuitableMedicationsFound
| PrismaClientValidationError
| TypeError

subsection \<open>Catalog queries\<close>

text \<open>\<^verbatim>\<open>prisma.medication.findUnique({ where: { id } })\<close>.\<close>

definition findUniqueMedication :: "Prisma \<Rightarrow> string \<Rightarrow> Medication option" where
  "findUniqueMedication db i = find (\<lambda>m. med_id m = i) (tbl_medication db)"

text \<open>
  One branch \<^verbatim>\<open>{ drug1Id: a, drug2Id: b }\<close> of the \<^verbatim>\<open>OR\<close> filter. Prisma drops a
  field whose value is \<^verbatim>\<open>undefined\<close> from a filter ("undefined means do nothing"), so
  an undefined id constrains nothing; a branch left with no field at all is no filter, and
  \<^verbatim>\<open>OR\<close> over no filters matches no row.
\<close>

definition pairFilter :: "string option \<Rightarrow> string option \<Rightarrow> DrugInteraction \<Rightarrow> bool" where
  "pairFilter a b r =
     (\<not> (a = None \<and> b = None)
      \<and> (case a of None \<Rightarrow> True | Some x \<Rightarrow> drug1Id r = x)
      \<and> (case b of None \<Rightarrow> True | Some y \<Rightarrow> drug2Id r = y))"

text \<open>
  \<^verbatim>\<open>prisma.drugInteraction.findFirst({ where: { OR: [{drug1Id: a, drug2Id: b},
  {drug1Id: b, drug2Id: a}] }, include: ... })\<close>. The query has no \<^verbatim>\<open>orderBy\<close>;
  \<open>tbl_drugInteraction\<close> lists the rows in the order of their primary key, in which
  the query scans them, and the first matching row is the result.
\<close>

definition findFirstInteraction ::
  "Prisma \<Rightarrow> string option \<Rightarrow> string option \<Rightarrow> DrugInteraction option" where
  "findFirstInteraction db a b =
     find (\<lambda>r. pairFilter a b r \<or> pairFilter b a r) (tbl_drugInteraction db)"

subsection \<open>Safety engine: allergy check\<close>

definition crossSensitivities :: "(string \<times> string list) list" where
  "crossSensitivities =
     [(''penicillin'', [''amoxicillin'', ''ampicillin'', ''cephalosporin'', ''ceftriaxone'']),
      (''sulfa'', [''sulfamethoxazole'', ''trimethoprim'']),
      (''aspirin'', [''ibuprofen'', ''naproxen'', ''diclofenac''])]"

definition checkCrossSensitivity :: "string \<Rightarrow> string \<Rightarrow> bool" where
  "checkCrossSensitivity allergenName drugName =
     list_ex (\<lambda>(key, related).
        includesStr (toLowerCase allergenName) key
        \<and> list_ex (\<lambda>r. includesStr (toLowerCase drugName) r) related) crossSensitivities"

text \<open>The condition of the "Direct match" branch.\<close>

definition directMatch :: "Medication \<Rightarrow> Allergy \<Rightarrow> bool" where
  "directMatch med allergy =
     (includesStr (toLowerCase (genericName med)) (toLowerCase (allergen allergy))
      \<or> includesStr (toLowerCase (allergen allergy)) (toLowerCase (genericName med)))"

definition directMatchAlert :: "Medication \<Rightarrow> Allergy \<Rightarrow> SafetyAlert" where
  "directMatchAlert med allergy =
     \<lparr> alert_type = ALLERGY,
       severity = (if allergy_severity allergy = ''LIFE_THREATENING''
                      \<or> allergy_severity allergy = ''SEVERE''
                   then CRITICAL else WARNING),
       message = ''Patient has documented '' @ toLowerCase (allergy_severity allergy)
                 @ '' allergy to '' @ allergen allergy,
       clinicalRationale = Some (''Reaction: '' @ allergen allergy
                 @ ''. This medication contains or is related to the allergen.''),
       recommendation = Some (''Avoid '' @ genericName med
                 @ ''. Consider alternative medication class.''),
       canOverride = (allergy_severity allergy \<noteq> ''LIFE_THREATENING'') \<rparr>"

definition crossSensitivityAlert :: "Medication \<Rightarrow> Allergy \<Rightarrow> SafetyAlert" where
  "crossSensitivityAlert med allergy =
     \<lparr> alert_type = ALLERGY,
       severity = WARNING,
       message = ''Possible cross-sensitivity: Patient allergic to '' @ allergen allergy,
       clinicalRationale = Some (genericName med @ '' may have cross-sensitivity with ''
                 @ allergen allergy),
       recommendation = Some ''Monitor closely or consider alternative.'',
       canOverride = True \<rparr>"

text \<open>The body of the inner loop: what one medication and one allergy contribute.\<close>

definition allergyAlertsFor :: "Medication \<Rightarrow> Allergy \<Rightarrow> SafetyAlert list" where
  "allergyAlertsFor med allergy =
     (if directMatch med allergy then [directMatchAlert med allergy] else [])
     @ (if checkCrossSensitivity (allergen allergy) (genericName med)
        then [crossSensitivityAlert med allergy] else [])"

definition checkAllergies :: "PatientContext \<Rightarrow> Medication option list \<Rightarrow> SafetyAlert list" where
  "checkAllergies patientContext meds =
     (case allergies patientContext of
        None \<Rightarrow> []
      | Some als \<Rightarrow>
          if length als = 0 then []
          else concat (map (\<lambda>med. case med of
                                None \<Rightarrow> []
                              | Some m \<Rightarrow> concat (map (allergyAlertsFor m) als)) meds))"

subsection \<open>Safety engine: drug-drug interactions\<close>

definition mapInteractionSeverity :: "string \<Rightarrow> AlertSeverity" where
  "mapInteractionSeverity s =
     (if s = ''CONTRAINDICATED'' \<or> s = ''MAJOR'' then CRITICAL
      else if s = ''MODERATE'' then WARNING
      else INFO)"

text \<open>\<^verbatim>\<open>x || dflt\<close> on an optional string: the default replaces null and the empty string.\<close>

definition orElse :: "string option \<Rightarrow> string \<Rightarrow> string" where
  "orElse x dflt = (case x of None \<Rightarrow> dflt | Some s \<Rightarrow> if s = [] then dflt else s)"

definition proposedInteractionAlert :: "DrugInteraction \<Rightarrow> SafetyAlert" where
  "proposedInteractionAlert interaction =
     \<lparr> alert_type = DRUG_INTERACTION,
       severity = mapInteractionSeverity (int_severity interaction),
       message = ''Interaction between '' @ genericName (drug1 interaction) @ '' and ''
                 @ genericName (drug2 interaction),
       clinicalRationale = Some (description interaction),
       recommendation = Some (orElse (management interaction) ''Monitor closely''),
       canOverride = (int_severity interaction \<noteq> ''CONTRAINDICATED'') \<rparr>"

definition currentInteractionAlert :: "CurrentMedication \<Rightarrow> DrugInteraction \<Rightarrow> SafetyAlert" where
  "currentInteractionAlert currentMed interaction =
     \<lparr> alert_type = DRUG_INTERACTION,
       severity = mapInteractionSeverity (int_severity interaction),
       message = ''Interaction with current medication: '' @ cur_genericName currentMed,
       clinicalRationale = Some (description interaction),
       recommendation = Some (orElse (management interaction)
                 ''Consider alternative or adjust dosing''),
       canOverride = (int_severity interaction \<noteq> ''CONTRAINDICATED'') \<rparr>"

text \<open>
  The index pairs the nested loop \<^verbatim>\<open>for i in 0..n-1, for j in i+1..n-1\<close> visits, in
  the order it visits them. Each pair is one \<^verbatim>\<open>findFirst\<close> query.
\<close>

definition proposedPairs :: "nat \<Rightarrow> (nat \<times> nat) list" where
  "proposedPairs n = concat (map (\<lambda>i. map (\<lambda>j. (i, j)) [Suc i ..< n]) [0 ..< n])"

text \<open>
  The query of one pair. \<^verbatim>\<open>proposedMeds[i]?.id\<close> is undefined for an entry that did
  not resolve; this loop has no \<^verbatim>\<open>if (!med) continue\<close>.
\<close>

definition pairLookup ::
  "Prisma \<Rightarrow> Medication option \<Rightarrow> Medication option \<Rightarrow> DrugInteraction option" where
  "pairLookup db x y = findFirstInteraction db (map_option med_id x) (map_option med_id y)"

definition pairAlerts ::
  "Prisma \<Rightarrow> Medication option \<Rightarrow> Medication option \<Rightarrow> SafetyAlert list" where
  "pairAlerts db x y =
     (case pairLookup db x y of
        None \<Rightarrow> []
      | Some interaction \<Rightarrow> [proposedInteractionAlert interaction])"

definition currentAlerts :: "Prisma \<Rightarrow> Medication \<Rightarrow> CurrentMedication \<Rightarrow> SafetyAlert list" where
  "currentAlerts db proposedMed currentMed =
     (case findFirstInteraction db (Some (med_id proposedMed))
             (Some (cur_medicationId currentMed)) of
        None \<Rightarrow> []
      | Some interaction \<Rightarrow> [currentInteractionAlert currentMed interaction])"

definition checkDrugInteractions ::
  "Prisma \<Rightarrow> Medication option list \<Rightarrow> CurrentMedication list \<Rightarrow> SafetyAlert list" where
  "checkDrugInteractions db proposedMeds currentMeds =
     concat (map (\<lambda>(i, j). pairAlerts db (proposedMeds ! i) (proposedMeds ! j))
               (proposedPairs (length proposedMeds)))
     @ concat (map (\<lambda>proposedMed. case proposedMed of
                      None \<Rightarrow> []
                    | Some p \<Rightarrow> concat (map (currentAlerts db p) currentMeds)) proposedMeds)"

subsection \<open>Safety engine: contraindications\<close>

text \<open>\<^verbatim>\<open>keywords.some((drug) => name.toLowerCase().includes(drug))\<close>.\<close>

definition matchesKeyword :: "string \<Rightarrow> string list \<Rightarrow> bool" where
  "matchesKeyword name keywords = list_ex (\<lambda>drug. includesStr (toLowerCase name) drug) keywords"

definition contraindications :: "(string \<times> string list) list" where
  "contraindications =
     [(''peptic ulcer'', [''aspirin'', ''ibuprofen'', ''naproxen'', ''diclofenac'']),
      (''heart failure'', [''nsaid'', ''ibuprofen'']),
      (''asthma'', [''aspirin'', ''beta-blocker'']),
      (''renal failure'', [''metformin'', ''nsaid''])]"

definition contraindicationAlert :: "Medication \<Rightarrow> Condition \<Rightarrow> SafetyAlert" where
  "contraindicationAlert med condition =
     \<lparr> alert_type = CONTRAINDICATION,
       severity = CRITICAL,
       message = genericName med @ '' is contraindicated in '' @ diagnosisName condition,
       clinicalRationale = Some (''Patient has '' @ diagnosisName condition
                 @ '' which is a contraindication for '' @ genericName med),
       recommendation = Some ''Use alternative medication'',
       canOverride = False \<rparr>"

definition checkContraindications ::
  "PatientContext \<Rightarrow> Medication option list \<Rightarrow> SafetyAlert list" where
  "checkContraindications patientContext meds =
     (case conditions patientContext of
        None \<Rightarrow> []
      | Some cs \<Rightarrow>
          concat (map (\<lambda>condition.
            concat (map (\<lambda>(contraindicatedCondition, drugs).
              if includesStr (toLowerCase (diagnosisName condition)) contraindicatedCondition
              then concat (map (\<lambda>med. case med of
                                  None \<Rightarrow> []
                                | Some m \<Rightarrow>
                                    if matchesKeyword (genericName m) drugs
                                    then [contraindicationAlert m condition] else []) meds)
              else []) contraindications)) cs))"

subsection \<open>Safety engine: duplicate therapy\<close>

definition duplicateMedicationAlert :: "Medication \<Rightarrow> SafetyAlert" where
  "duplicateMedicationAlert proposed =
     \<lparr> alert_type = DUPLICATE_THERAPY,
       severity = WARNING,
       message = ''Duplicate medication: '' @ genericName proposed @ '' is already prescribed'',
       clinicalRationale = Some ''Patient is already taking this medication'',
       recommendation = Some ''Review current medications before prescribing'',
       canOverride = True \<rparr>"

definition classAlert :: "string \<Rightarrow> SafetyAlert" where
  "classAlert className =
     \<lparr> alert_type = DUPLICATE_THERAPY,
       severity = WARNING,
       message = ''Multiple medications from same class: '' @ className,
       clinicalRationale = Some (''Prescribing multiple '' @ className
                 @ '' may not be appropriate''),
       recommendation = Some ''Review therapeutic duplication'',
       canOverride = True \<rparr>"

text \<open>
  \<^verbatim>\<open>groupByTherapeuticClass\<close> fills a plain object \<^verbatim>\<open>groups = {}\<close>. The object is an
  association list of its own properties in creation order. A plain object also inherits
  the properties of \<^verbatim>\<open>Object.prototype\<close>: for such a key \<^verbatim>\<open>groups[className]\<close> is a
  function (or the prototype itself), which is truthy, so no array is created and
  \<^verbatim>\<open>groups[className].push(...)\<close> throws a \<^verbatim>\<open>TypeError\<close>.
\<close>

definition objectPrototypeKeys :: "string list" where
  "objectPrototypeKeys =
     [''constructor'', ''__defineGetter__'', ''__defineSetter__'', ''hasOwnProperty'',
      ''__lookupGetter__'', ''__lookupSetter__'', ''isPrototypeOf'', ''propertyIsEnumerable'',
      ''toString'', ''valueOf'', ''__proto__'', ''toLocaleString'']"

type_synonym classGroups = "(string \<times> string list) list"

text \<open>A member of the combined list: its generic name and its therapeutic class.\<close>

type_synonym classMember = "string \<times> string option"

fun groupPush :: "string \<Rightarrow> string \<Rightarrow> classGroups \<Rightarrow> classGroups" where
  "groupPush className name [] = [(className, [name])]"
| "groupPush className name ((k, names) # groups) =
     (if k = className then (k, names @ [name]) # groups
      else (k, names) # groupPush className name groups)"

definition memberClass :: "classMember \<Rightarrow> string" where
  "memberClass med = orElse (snd med) ''Unknown''"

fun groupLoop :: "classGroups \<Rightarrow> classMember list \<Rightarrow> error + classGroups" where
  "groupLoop groups [] = Inr groups"
| "groupLoop groups (med # rest) =
     (if memberClass med \<in> set objectPrototypeKeys then Inl TypeError
      else groupLoop (groupPush (memberClass med) (fst med) groups) rest)"

definition groupByTherapeuticClass :: "classMember list \<Rightarrow> error + classGroups" where
  "groupByTherapeuticClass meds = groupLoop [] meds"

text \<open>
  \<^verbatim>\<open>Object.entries\<close> lists the keys that are array indices (canonical decimal numerals
  up to \<open>2^32 - 2\<close>) first, in ascending numeric order, and then the other keys in creation
  order.
\<close>

definition isArrayIndex :: "string \<Rightarrow> bool" where
  "isArrayIndex k =
     (k \<noteq> [] \<and> list_all isDigit k \<and> (k = ''0'' \<or> hd k \<noteq> CHR ''0'')
      \<and> decimalValue k \<le> 4294967294)"

definition objectEntries :: "classGroups \<Rightarrow> classGroups" where
  "objectEntries groups =
     sort_key (\<lambda>e. decimalValue (fst e)) (filter (\<lambda>e. isArrayIndex (fst e)) groups)
     @ filter (\<lambda>e. \<not> isArrayIndex (fst e)) groups"

text \<open>\<^verbatim>\<open>proposedMeds.filter((m) => m)\<close>: the entries that resolved.\<close>

definition resolved :: "Medication option list \<Rightarrow> Medication list" where
  "resolved meds = concat (map (\<lambda>m. case m of None \<Rightarrow> [] | Some x \<Rightarrow> [x]) meds)"

definition sameDrugAlerts ::
  "Medication option list \<Rightarrow> CurrentMedication list \<Rightarrow> SafetyAlert list" where
  "sameDrugAlerts proposedMeds currentMeds =
     concat (map (\<lambda>proposed. case proposed of
                    None \<Rightarrow> []
                  | Some p \<Rightarrow>
                      concat (map (\<lambda>current.
                        if toLowerCase (genericName p) = toLowerCase (cur_genericName current)
                           \<or> med_id p = cur_medicationId current
                        then [duplicateMedicationAlert p] else []) currentMeds)) proposedMeds)"

text \<open>
  The list handed to \<^verbatim>\<open>groupByTherapeuticClass\<close>: the resolved proposed medications
  with their class, then every current medication with \<^verbatim>\<open>therapeuticClass: null\<close>.
\<close>

definition classMembers ::
  "Medication option list \<Rightarrow> CurrentMedication list \<Rightarrow> classMember list" where
  "classMembers proposedMeds currentMeds =
     map (\<lambda>m. (genericName m, therapeuticClass m)) (resolved proposedMeds)
     @ map (\<lambda>m. (cur_genericName m, None)) currentMeds"

definition classAlerts :: "classGroups \<Rightarrow> SafetyAlert list" where
  "classAlerts groups =
     concat (map (\<lambda>(className, drugs). if length drugs > 1 then [classAlert className] else [])
               (objectEntries groups))"

definition checkDuplicateTherapy ::
  "Medication option list \<Rightarrow> CurrentMedication list \<Rightarrow> error + SafetyAlert list" where
  "checkDuplicateTherapy proposedMeds currentMeds =
     (case groupByTherapeuticClass (classMembers proposedMeds currentMeds) of
        Inl e \<Rightarrow> Inl e
      | Inr therapeuticClasses \<Rightarrow>
          Inr (sameDrugAlerts proposedMeds currentMeds @ classAlerts therapeuticClasses))"

subsection \<open>Safety engine: dose range\<close>

text \<open>
  \<^verbatim>\<open>proposed.dose.match(/(\d+\.?\d*)/)\<close>: the leftmost run of digits, an optional dot
  and the digits after it. The result is the pair of the integer digits and the fraction
  digits; \<open>None\<close> when the dose has no digit.
\<close>

definition doseMatch :: "string \<Rightarrow> (string \<times> string) option" where
  "doseMatch s =
     (case dropWhile (\<lambda>c. \<not> isDigit c) s of
        [] \<Rightarrow> None
      | c # cs \<Rightarrow>
          Some (takeWhile isDigit (c # cs),
                case dropWhile isDigit (c # cs) of
                  [] \<Rightarrow> []
                | d # ds \<Rightarrow> if d = CHR ''.'' then takeWhile isDigit ds else []))"

text \<open>
  \<^verbatim>\<open>parseFloat(doseMatch[1]) > 5000\<close>. \<^verbatim>\<open>parseFloat\<close> rounds the decimal to the
  nearest double, ties to even. The doubles next to \<open>5000\<close> are \<open>2^-40\<close> apart and \<open>5000\<close>
  has an even significand, so the parsed value exceeds \<open>5000\<close> exactly when the decimal
  exceeds \<open>5000 + 2^-41\<close>: the integer part is above \<open>5000\<close>, or it is \<open>5000\<close> and the
  fraction \<open>f / 10^k\<close> (\<open>k\<close> digits) is above \<open>2^-41\<close>.
\<close>

definition doseAbove5000 :: "string \<times> string \<Rightarrow> bool" where
  "doseAbove5000 m =
     (decimalValue (fst m) > 5000
      \<or> (decimalValue (fst m) = 5000 \<and> decimalValue (snd m) * 2 ^ 41 > 10 ^ length (snd m)))"

definition pediatricWeightAlert :: SafetyAlert where
  "pediatricWeightAlert =
     \<lparr> alert_type = DOSE_RANGE,
       severity = WARNING,
       message = ''Pediatric patient: weight required for dose calculation'',
       clinicalRationale = Some ''Weight-based dosing is recommended for pediatric patients'',
       recommendation = Some ''Enter patient weight for accurate dosing'',
       canOverride = True \<rparr>"

definition highDoseAlert :: "ProposedMedication \<Rightarrow> SafetyAlert" where
  "highDoseAlert proposed =
     \<lparr> alert_type = DOSE_RANGE,
       severity = CRITICAL,
       message = ''Dose appears unusually high: '' @ dose proposed,
       clinicalRationale = Some ''Dose exceeds typical maximum'',
       recommendation = Some ''Verify dose calculation'',
       canOverride = True \<rparr>"

text \<open>The loop body for index \<open>i\<close>: \<^verbatim>\<open>proposedMedications[i]\<close> with \<^verbatim>\<open>medications[i]\<close>.\<close>

definition doseAlertsFor ::
  "PatientContext \<Rightarrow> ProposedMedication \<times> Medication option \<Rightarrow> SafetyAlert list" where
  "doseAlertsFor patientContext pm =
     (case snd pm of
        None \<Rightarrow> []
      | Some med \<Rightarrow>
          (case doseMatch (dose (fst pm)) of
             None \<Rightarrow> []
           | Some m \<Rightarrow>
               (if age patientContext < 18 \<and> \<not> truthyNum (weight patientContext)
                then [pediatricWeightAlert] else [])
               @ (if doseAbove5000 m then [highDoseAlert (fst pm)] else [])))"

definition checkDoseRanges ::
  "PatientContext \<Rightarrow> ProposedMedication list \<Rightarrow> Medication option list \<Rightarrow> SafetyAlert list" where
  "checkDoseRanges patientContext proposedMedications meds =
     concat (map (doseAlertsFor patientContext) (zip proposedMedications meds))"

subsection \<open>Safety engine: organ function\<close>

definition renallyExcreted :: "string list" where
  "renallyExcreted = [''metformin'', ''gabapentin'', ''enoxaparin'', ''digoxin'']"

definition hepaticMetabolized :: "string list" where
  "hepaticMetabolized = [''warfarin'', ''phenytoin'', ''carbamazepine'']"

definition renalAlert :: "int \<Rightarrow> Medication \<Rightarrow> SafetyAlert" where
  "renalAlert egfr med =
     (let sev = (if egfr < 30 then CRITICAL else WARNING) in
      \<lparr> alert_type = RENAL_ADJUSTMENT,
        severity = sev,
        message = ''Renal dose adjustment required for '' @ genericName med,
        clinicalRationale = Some (''Patient eGFR: '' @ showNumber egfr @ '' mL/min. ''
                  @ genericName med @ '' requires dose adjustment in renal impairment.''),
        recommendation = Some (if egfr < 30 then ''Avoid or use significantly reduced dose''
                               else ''Reduce dose based on renal function''),
        canOverride = (sev = WARNING) \<rparr>)"

definition hepaticAlert :: "string \<Rightarrow> Medication \<Rightarrow> SafetyAlert" where
  "hepaticAlert hepatic med =
     \<lparr> alert_type = HEPATIC_ADJUSTMENT,
       severity = WARNING,
       message = ''Hepatic dose adjustment may be needed for '' @ genericName med,
       clinicalRationale = Some (''Patient has '' @ toLowerCase hepatic
                 @ '' hepatic impairment.''),
       recommendation = Some ''Monitor closely and adjust dose as needed'',
       canOverride = True \<rparr>"

definition checkOrganFunction ::
  "PatientContext \<Rightarrow> Medication option list \<Rightarrow> SafetyAlert list" where
  "checkOrganFunction patientContext meds =
     (case renalFunction patientContext of
        None \<Rightarrow> []
      | Some egfr \<Rightarrow>
          if egfr \<noteq> 0 \<and> egfr < 60
          then concat (map (\<lambda>med. case med of
                              None \<Rightarrow> []
                            | Some m \<Rightarrow>
                                if matchesKeyword (genericName m) renallyExcreted
                                then [renalAlert egfr m] else []) meds)
          else [])
     @ (case hepaticFunction patientContext of
          None \<Rightarrow> []
        | Some hepatic \<Rightarrow>
            if hepatic \<noteq> [] \<and> hepatic \<in> set [''Moderate'', ''Severe'']
            then concat (map (\<lambda>med. case med of
                                None \<Rightarrow> []
                              | Some m \<Rightarrow>
                                  if matchesKeyword (genericName m) hepaticMetabolized
                                  then [hepaticAlert hepatic m] else []) meds)
            else [])"

subsection \<open>Safety engine: pregnancy and lactation\<close>

definition pregnancyContraindicated :: "string list" where
  "pregnancyContraindicated = [''warfarin'', ''methotrexate'', ''isotretinoin'', ''finasteride'']"

definition pregnancyCaution :: "string list" where
  "pregnancyCaution = [''ace inhibitor'', ''arb'', ''nsaid'']"

definition lactationCaution :: "string list" where
  "lactationCaution = [''codeine'', ''aspirin'', ''lithium'']"

definition pregnancyContraindicatedAlert :: "Medication \<Rightarrow> SafetyAlert" where
  "pregnancyContraindicatedAlert med =
     \<lparr> alert_type = PREGNANCY_WARNING,
       severity = CRITICAL,
       message = genericName med @ '' is contraindicated in pregnancy'',
       clinicalRationale = Some ''Known teratogenic effects or fetal harm'',
       recommendation = Some ''Use alternative medication safe for pregnancy'',
       canOverride = False \<rparr>"

definition pregnancyCautionAlert :: "Medication \<Rightarrow> SafetyAlert" where
  "pregnancyCautionAlert med =
     \<lparr> alert_type = PREGNANCY_WARNING,
       severity = WARNING,
       message = ''Use '' @ genericName med @ '' with caution in pregnancy'',
       clinicalRationale = Some ''Potential risks to fetus'',
       recommendation = Some
         ''Consider safer alternatives or use only if benefit outweighs risk'',
       canOverride = True \<rparr>"

definition lactationAlert :: "Medication \<Rightarrow> SafetyAlert" where
  "lactationAlert med =
     \<lparr> alert_type = LACTATION_WARNING,
       severity = WARNING,
       message = genericName med @ '' may not be safe during breastfeeding'',
       clinicalRationale = Some ''Drug passes into breast milk'',
       recommendation = Some ''Consider alternative or monitor infant closely'',
       canOverride = True \<rparr>"

definition checkPregnancyLactation ::
  "PatientContext \<Rightarrow> Medication option list \<Rightarrow> SafetyAlert list" where
  "checkPregnancyLactation patientContext meds =
     (if truthyBool (isPregnant patientContext)
      then concat (map (\<lambda>med. case med of
                          None \<Rightarrow> []
                        | Some m \<Rightarrow>
                            if matchesKeyword (genericName m) pregnancyContraindicated
                            then [pregnancyContraindicatedAlert m]
                            else if matchesKeyword (genericName m) pregnancyCaution
                            then [pregnancyCautionAlert m]
                            else []) meds)
      else [])
     @ (if truthyBool (isLactating patientContext)
        then concat (map (\<lambda>med. case med of
                            None \<Rightarrow> []
                          | Some m \<Rightarrow>
                              if matchesKeyword (genericName m) lactationCaution
                              then [lactationAlert m] else []) meds)
        else [])"

subsection \<open>Safety engine: age-specific warnings\<close>

definition pediatricContraindicated :: "string list" where
  "pediatricContraindicated = [''tetracycline'', ''fluoroquinolone'', ''aspirin'']"

definition geriatricCaution :: "string list" where
  "geriatricCaution = [''benzodiazepine'', ''anticholinergic'', ''opioid'']"

definition pediatricAlert :: "int \<Rightarrow> Medication \<Rightarrow> SafetyAlert" where
  "pediatricAlert years med =
     (let reye = (includesStr (toLowerCase (genericName med)) ''aspirin'' \<and> years < 12);
          sev = (if reye then CRITICAL else WARNING)
      in \<lparr> alert_type = AGE_WARNING,
           severity = sev,
           message = genericName med @ '' not recommended for age '' @ showNumber years,
           clinicalRationale = Some (if reye then ''Risk of Reye's syndrome in children''
                     else ''Generally not recommended in pediatric patients''),
           recommendation = Some ''Use age-appropriate alternative'',
           canOverride = (sev = WARNING) \<rparr>)"

definition geriatricAlert :: "Medication \<Rightarrow> SafetyAlert" where
  "geriatricAlert med =
     \<lparr> alert_type = AGE_WARNING,
       severity = INFO,
       message = ''Use '' @ genericName med @ '' with caution in elderly patients'',
       clinicalRationale = Some
         ''Increased risk of falls, cognitive impairment, or adverse effects'',
       recommendation = Some ''Start with low dose and monitor closely'',
       canOverride = True \<rparr>"

definition checkAgeSpecific ::
  "PatientContext \<Rightarrow> Medication option list \<Rightarrow> SafetyAlert list" where
  "checkAgeSpecific patientContext meds =
     (if age patientContext < 18
      then concat (map (\<lambda>med. case med of
                          None \<Rightarrow> []
                        | Some m \<Rightarrow>
                            if matchesKeyword (genericName m) pediatricContraindicated
                            then [pediatricAlert (age patientContext) m] else []) meds)
      else [])
     @ (if age patientContext \<ge> 65
        then concat (map (\<lambda>med. case med of
                            None \<Rightarrow> []
                          | Some m \<Rightarrow>
                              if matchesKeyword (genericName m) geriatricCaution
                              then [geriatricAlert m] else []) meds)
        else [])"

subsection \<open>Safety engine: the main check\<close>

text \<open>
  The alerts of the eight checks in their fixed order, given the resolved medication
  list. The duplicate-therapy alerts are passed in, since that check is the one that can
  throw.
\<close>

definition allAlerts ::
  "Prisma \<Rightarrow> PatientContext \<Rightarrow> ProposedMedication list \<Rightarrow> Medication option list
     \<Rightarrow> SafetyAlert list \<Rightarrow> SafetyAlert list" where
  "allAlerts db patientContext proposedMedications meds duplicateAlerts =
     checkAllergies patientContext meds
     @ checkDrugInteractions db meds
         (case currentMedications patientContext of None \<Rightarrow> [] | Some c \<Rightarrow> c)
     @ checkContraindications patientContext meds
     @ duplicateAlerts
     @ checkDoseRanges patientContext proposedMedications meds
     @ checkOrganFunction patientContext meds
     @ checkPregnancyLactation patientContext meds
     @ checkAgeSpecific patientContext meds"

definition performSafetyCheck ::
  "Prisma \<Rightarrow> PatientContext \<Rightarrow> ProposedMedication list \<Rightarrow> error + SafetyCheckResult" where
  "performSafetyCheck db patientContext proposedMedications =
     (let meds = map (\<lambda>pm. findUniqueMedication db (medicationId pm)) proposedMedications
      in case checkDuplicateTherapy meds
                (case currentMedications patientContext of None \<Rightarrow> [] | Some c \<Rightarrow> c) of
           Inl e \<Rightarrow> Inl e
         | Inr duplicateAlerts \<Rightarrow>
             (let als = allAlerts db patientContext proposedMedications meds duplicateAlerts;
                  crit = filter (\<lambda>a. severity a = CRITICAL) als;
                  needsOverride = list_ex (\<lambda>a. \<not> canOverride a) crit
              in Inr \<lparr> safe = (length crit = 0),
                       alerts = als,
                       criticalAlerts = crit,
                       requiresOverride = needsOverride \<rparr>))"

subsection \<open>Rules engine\<close>

text \<open>
  \<^verbatim>\<open>findMatchingRules\<close>: no rule when the diagnosis code is absent (or empty, which is
  falsy); otherwise the active rules whose code list has the code, most recently updated
  first.
\<close>

definition findMatchingRules :: "Prisma \<Rightarrow> ClinicalContext \<Rightarrow> ClinicalRule list" where
  "findMatchingRules db clinicalContext =
     (case diagnosisCode clinicalContext of
        None \<Rightarrow> []
      | Some code \<Rightarrow>
          if code = [] then []
          else sort_key (\<lambda>r. - updatedAt r)
                 (filter (\<lambda>r. rule_isActive r \<and> code \<in> set (diagnosisCodes r))
                    (tbl_clinicalRule db)))"

text \<open>The object \<^verbatim>\<open>{ dose, frequency, route, duration }\<close> that \<^verbatim>\<open>calculateDose\<close> returns.\<close>

record Dosing =
  calc_dose :: string
  calc_frequency :: string
  calc_route :: string
  calc_duration :: string

text \<open>
  \<^verbatim>\<open>calculateDose\<close>: four variables with defaults, then three adjustments in the
  order of the source, each overwriting what an earlier one set.
\<close>

definition calculateDose :: "Medication \<Rightarrow> PatientContext \<Rightarrow> ClinicalContext \<Rightarrow> Dosing" where
  "calculateDose med patientContext clinicalContext =
     (let dose0 = strength med;
          frequency0 = ''BID'';
          duration0 = ''7 days'';
          dose1 = (case weight patientContext of
                     None \<Rightarrow> dose0
                   | Some w \<Rightarrow> if age patientContext < 18 \<and> w \<noteq> 0
                               then ''Based on '' @ showNumber w @ ''kg'' else dose0);
          frequency1 = (case renalFunction patientContext of
                          None \<Rightarrow> frequency0
                        | Some egfr \<Rightarrow> if egfr \<noteq> 0 \<and> egfr < 50 then ''QD'' else frequency0);
          frequency2 = (if ctx_severity clinicalContext = Some ''severe''
                        then (if route med = ''IV'' then ''Q6H'' else ''TID'')
                        else frequency1);
          duration1 = (if ctx_severity clinicalContext = Some ''severe''
                       then ''10-14 days'' else duration0)
      in \<lparr> calc_dose = dose1, calc_frequency = frequency2, calc_route = route med,
           calc_duration = duration1 \<rparr>)"

definition pregnancySentence :: string where
  "pregnancySentence = ''Considered safe for use in pregnancy (Category B).''"

definition rationaleParts ::
  "Medication \<Rightarrow> ClinicalRule \<Rightarrow> PatientContext \<Rightarrow> ClinicalContext \<Rightarrow> string list" where
  "rationaleParts med rule patientContext clinicalContext =
     (if isAntibiotic med
      then (if awaRe med = ACCESS
            then [genericName med
                  @ '' is an Access antibiotic with low resistance risk and broad availability.'']
            else if awaRe med = WATCH
            then [genericName med
                  @ '' is a Watch antibiotic. It has higher resistance potential and should be used when Access antibiotics are unsuitable.'']
            else [])
      else [])
     @ [''Recommended as first-line treatment for '' @ diagnosis clinicalContext
        @ '' based on '' @ orElse (guidelineSource rule) ''clinical guidelines'' @ ''.'']
     @ (case renalFunction patientContext of
          None \<Rightarrow> []
        | Some egfr \<Rightarrow>
            if egfr \<noteq> 0 \<and> egfr < 60
            then [''Dosing adjusted for renal function (eGFR: '' @ showNumber egfr @ '').'']
            else [])
     @ (if age patientContext < 18
        then [''Pediatric dosing applied based on weight and age.''] else [])
     @ (if truthyBool (isPregnant patientContext) then [pregnancySentence] else [])"

definition generateRationale ::
  "Medication \<Rightarrow> ClinicalRule \<Rightarrow> PatientContext \<Rightarrow> ClinicalContext \<Rightarrow> string" where
  "generateRationale med rule patientContext clinicalContext =
     joinWith '' '' (rationaleParts med rule patientContext clinicalContext)"

definition generalWarning :: string where
  "generalWarning = ''No specific clinical rule found. Recommendation based on general principles. Consider consulting infectious disease specialist.''"

text \<open>
  \<^verbatim>\<open>prisma.medication.findMany({ where: { isAntibiotic: true, awaRe: ACCESS,
  isActive: true }, take: 5 })\<close>. The query has no \<^verbatim>\<open>orderBy\<close>; for a query with
  \<^verbatim>\<open>take\<close> Prisma then orders by the primary key, ascending. The rows are the
  matching ones in ascending order of \<open>med_id\<close> (ids compared as byte strings), and the
  first five of them.
\<close>

definition findAccessAntibiotics :: "Prisma \<Rightarrow> Medication list" where
  "findAccessAntibiotics db =
     take 5 (sort_key med_id
               (filter (\<lambda>m. isAntibiotic m \<and> awaRe m = ACCESS \<and> isActive m)
                  (tbl_medication db)))"

definition generalAlternative ::
  "PatientContext \<Rightarrow> ClinicalContext \<Rightarrow> Medication \<Rightarrow> DrugRecommendation" where
  "generalAlternative patientContext clinicalContext med =
     (let d = calculateDose med patientContext clinicalContext in
      \<lparr> medication = med,
        rec_dose = calc_dose d, frequency = calc_frequency d, rec_route = calc_route d,
        duration = calc_duration d,
        rationale = ''Alternative Access antibiotic option'',
        isFirstLine = False,
        alternativeReason = None,
        confidence = 50,
        rec_guidelineSource = None,
        rec_evidenceLevel = None \<rparr>)"

definition getGeneralRecommendations ::
  "Prisma \<Rightarrow> PatientContext \<Rightarrow> ClinicalContext \<Rightarrow> error + RecommendationResult" where
  "getGeneralRecommendations db patientContext clinicalContext =
     (case findAccessAntibiotics db of
        [] \<Rightarrow> Inl NoSuitableMedicationsFound
      | primaryMed # others \<Rightarrow>
          (let d = calculateDose primaryMed patientContext clinicalContext in
           Inr \<lparr> primary =
                   \<lparr> medication = primaryMed,
                     rec_dose = calc_dose d, frequency = calc_frequency d,
                     rec_route = calc_route d, duration = calc_duration d,
                     rationale = genericName primaryMed
                       @ '' is an Access antibiotic suitable for empiric therapy. Consider adjusting based on culture results.'',
                     isFirstLine = True,
                     alternativeReason = None,
                     confidence = 60,
                     rec_guidelineSource = Some ''WHO AWaRe Classification'',
                     rec_evidenceLevel = None \<rparr>,
                 alternatives =
                   map (generalAlternative patientContext clinicalContext) (take 2 others),
                 rulesApplied = [''General antibiotic stewardship principles''],
                 warnings = [generalWarning] \<rparr>))"

text \<open>
  \<^verbatim>\<open>firstLineChoices.drugId || firstLineChoices.medications?.[0]\<close>: the drug id when it
  is a non-empty string, else the first element of \<^verbatim>\<open>medications\<close>, else undefined.
\<close>

definition primaryMedId :: "FirstLineChoice \<Rightarrow> string option" where
  "primaryMedId choice =
     (if truthyStr (drugId choice) then drugId choice
      else (case medications choice of
              None \<Rightarrow> None
            | Some ms \<Rightarrow> (case ms of [] \<Rightarrow> None | m # rest \<Rightarrow> Some m)))"

definition ruleAlternative ::
  "PatientContext \<Rightarrow> ClinicalContext \<Rightarrow> ClinicalRule \<Rightarrow> AlternativeChoice \<Rightarrow> Medication
     \<Rightarrow> DrugRecommendation" where
  "ruleAlternative patientContext clinicalContext bestRule alt altMed =
     (let d = calculateDose altMed patientContext clinicalContext in
      \<lparr> medication = altMed,
        rec_dose = calc_dose d, frequency = calc_frequency d, rec_route = calc_route d,
        duration = calc_duration d,
        rationale = orElse (reason alt) ''Alternative treatment option'',
        isFirstLine = False,
        alternativeReason = reason alt,
        confidence = 70,
        rec_guidelineSource = guidelineSource bestRule,
        rec_evidenceLevel = None \<rparr>)"

text \<open>
  The loop over the rule's alternatives. \<^verbatim>\<open>findUnique\<close> with an undefined id throws
  and ends the whole request; an id that resolves to no row is skipped.
\<close>

fun resolveAlternatives ::
  "Prisma \<Rightarrow> PatientContext \<Rightarrow> ClinicalContext \<Rightarrow> ClinicalRule \<Rightarrow> AlternativeChoice list
     \<Rightarrow> error + DrugRecommendation list" where
  "resolveAlternatives db patientContext clinicalContext bestRule [] = Inr []"
| "resolveAlternatives db patientContext clinicalContext bestRule (alt # rest) =
     (case alt_drugId alt of
        None \<Rightarrow> Inl PrismaClientValidationError
      | Some i \<Rightarrow>
          (case resolveAlternatives db patientContext clinicalContext bestRule rest of
             Inl e \<Rightarrow> Inl e
           | Inr recs \<Rightarrow>
               (case findUniqueMedication db i of
                  None \<Rightarrow> Inr recs
                | Some altMed \<Rightarrow>
                    Inr (ruleAlternative patientContext clinicalContext bestRule alt altMed
                         # recs))))"

definition stewardshipWarnings :: "Medication \<Rightarrow> string list" where
  "stewardshipWarnings primaryMed =
     (if awaRe primaryMed = WATCH
      then [''This is a Watch category antibiotic. Consider Access alternatives if appropriate.'']
      else if awaRe primaryMed = RESERVE
      then [''This is a Reserve category antibiotic. Use only when other options have failed or in critical situations.'']
      else [])"

text \<open>The rule path: everything \<^verbatim>\<open>getRecommendations\<close> does once a rule matched.\<close>

definition applyRule ::
  "Prisma \<Rightarrow> PatientContext \<Rightarrow> ClinicalContext \<Rightarrow> ClinicalRule
     \<Rightarrow> error + RecommendationResult" where
  "applyRule db patientContext clinicalContext bestRule =
     (case primaryMedId (firstLineChoice bestRule) of
        None \<Rightarrow> Inl PrismaClientValidationError
      | Some i \<Rightarrow>
          (case findUniqueMedication db i of
             None \<Rightarrow> Inl PrimaryMedicationNotFound
           | Some primaryMed \<Rightarrow>
               (let d = calculateDose primaryMed patientContext clinicalContext;
                    prim = \<lparr> medication = primaryMed,
                             rec_dose = calc_dose d, frequency = calc_frequency d,
                             rec_route = calc_route d, duration = calc_duration d,
                             rationale = generateRationale primaryMed bestRule patientContext
                                           clinicalContext,
                             isFirstLine = True,
                             alternativeReason = None,
                             confidence = 90,
                             rec_guidelineSource =
                               Some (orElse (guidelineSource bestRule) ''WHO AWaRe''),
                             rec_evidenceLevel = evidenceLevel bestRule \<rparr>
                in case resolveAlternatives db patientContext clinicalContext bestRule
                          (case rule_alternatives bestRule of None \<Rightarrow> [] | Some a \<Rightarrow> a) of
                     Inl e \<Rightarrow> Inl e
                   | Inr alts \<Rightarrow>
                       Inr \<lparr> primary = prim,
                             alternatives = alts,
                             rulesApplied = [''Clinical Rule: '' @ rule_name bestRule],
                             warnings = stewardshipWarnings primaryMed \<rparr>)))"

definition getRecommendations ::
  "Prisma \<Rightarrow> PatientContext \<Rightarrow> ClinicalContext \<Rightarrow> error + RecommendationResult" where
  "getRecommendations db patientContext clinicalContext =
     (case findMatchingRules db clinicalContext of
        [] \<Rightarrow> getGeneralRecommendations db patientContext clinicalContext
      | bestRule # others \<Rightarrow> applyRule db patientContext clinicalContext bestRule)"

subsection \<open>The pairs of a list\<close>

text \<open>
  The pairs of elements that the nested index loop of \<open>checkDrugInteractions\<close> reads, by
  recursion on the list: the head with every later element, then the pairs of the tail.
  \<open>proposedPairs\<close> gives the same pairs by index (lemma \<open>proposedPairs_allPairs\<close>).
\<close>

fun allPairs :: "'a list \<Rightarrow> ('a \<times> 'a) list" where
  "allPairs [] = []"
| "allPairs (x # xs) = map (Pair x) xs @ allPairs xs"

subsection \<open>Sample catalog, rules and patients\<close>

text \<open>Concrete rows and contexts on which the theorems below are exercised.\<close>

definition amoxicillin :: Medication where
  "amoxicillin =
     \<lparr> med_id = ''med-amox'', genericName = ''Amoxicillin'', awaRe = ACCESS,
       isAntibiotic = True, therapeuticClass = Some ''Beta-lactam antibiotics'',
       strength = ''500mg'', route = ''oral'', isActive = True \<rparr>"

definition warfarin :: Medication where
  "warfarin =
     \<lparr> med_id = ''med-warf'', genericName = ''Warfarin'', awaRe = NOT_APPLICABLE,
       isAntibiotic = False, therapeuticClass = Some ''Anticoagulants'',
       strength = ''5mg'', route = ''oral'', isActive = True \<rparr>"

definition aspirin :: Medication where
  "aspirin =
     \<lparr> med_id = ''med-asp'', genericName = ''Aspirin'', awaRe = NOT_APPLICABLE,
       isAntibiotic = False, therapeuticClass = Some ''Analgesics and antipyretics'',
       strength = ''100mg'', route = ''oral'', isActive = True \<rparr>"

definition ampicillin :: Medication where
  "ampicillin =
     \<lparr> med_id = ''med-ampi'', genericName = ''Ampicillin'', awaRe = ACCESS,
       isAntibiotic = True, therapeuticClass = Some ''Beta-lactam antibiotics'',
       strength = ''500mg'', route = ''IV'', isActive = True \<rparr>"

text \<open>A deactivated row (\<^verbatim>\<open>deactivate\<close> keeps the row and clears \<^verbatim>\<open>isActive\<close>).\<close>

definition cefalexin :: Medication where
  "cefalexin =
     \<lparr> med_id = ''med-cef'', genericName = ''Cefalexin'', awaRe = ACCESS,
       isAntibiotic = True, therapeuticClass = Some ''First generation cephalosporins'',
       strength = ''500mg'', route = ''oral'', isActive = False \<rparr>"

definition warfarinAspirin :: DrugInteraction where
  "warfarinAspirin =
     \<lparr> drug1Id = ''med-warf'', drug2Id = ''med-asp'', int_severity = ''MAJOR'',
       description = ''Increased bleeding risk'', management = None,
       drug1 = warfarin, drug2 = aspirin \<rparr>"

definition utiRule :: ClinicalRule where
  "utiRule =
     \<lparr> rule_name = ''Urinary Tract Infection (UTI) - Uncomplicated'',
       diagnosisCodes = [''N39.0''], rule_isActive = True,
       firstLineChoice = \<lparr> drugId = Some ''med-cef'', medications = None \<rparr>,
       rule_alternatives = Some [\<lparr> alt_drugId = Some ''med-amox'',
                                   reason = Some ''Treatment failure'' \<rparr>],
       guidelineSource = Some ''EAU Guidelines 2023'', evidenceLevel = Some ''A'',
       updatedAt = 2 \<rparr>"

definition anticoagulationRule :: ClinicalRule where
  "anticoagulationRule =
     \<lparr> rule_name = ''Atrial fibrillation - anticoagulation'',
       diagnosisCodes = [''I48''], rule_isActive = True,
       firstLineChoice = \<lparr> drugId = Some ''med-warf'', medications = None \<rparr>,
       rule_alternatives = None,
       guidelineSource = None, evidenceLevel = Some ''A'',
       updatedAt = 1 \<rparr>"

definition sampleDb :: Prisma where
  "sampleDb =
     \<lparr> tbl_medication = [cefalexin, amoxicillin, warfarin, aspirin, ampicillin],
       tbl_drugInteraction = [warfarinAspirin],
       tbl_clinicalRule = [utiRule, anticoagulationRule] \<rparr>"

definition penicillinAllergy :: Allergy where
  "penicillinAllergy = \<lparr> allergen = ''Penicillin'', allergy_severity = ''SEVERE'' \<rparr>"

definition adultPatient :: PatientContext where
  "adultPatient =
     \<lparr> patient_id = ''patient-1'', age = 45, weight = Some 80, gender = ''MALE'',
       isPregnant = Some False, isLactating = Some False, renalFunction = Some 90,
       hepaticFunction = None, allergies = Some [penicillinAllergy],
       conditions = Some [], currentMedications = Some [] \<rparr>"

definition pregnantPatient :: PatientContext where
  "pregnantPatient =
     \<lparr> patient_id = ''patient-2'', age = 30, weight = Some 60, gender = ''FEMALE'',
       isPregnant = Some True, isLactating = Some False, renalFunction = Some 40,
       hepaticFunction = None, allergies = Some [],
       conditions = Some [], currentMedications = Some [] \<rparr>"

definition pneumonia :: ClinicalContext where
  "pneumonia =
     \<lparr> diagnosis = ''Community-acquired pneumonia'', diagnosisCode = Some ''J18.9'',
       ctx_severity = None \<rparr>"

definition severePneumonia :: ClinicalContext where
  "severePneumonia =
     \<lparr> diagnosis = ''Community-acquired pneumonia'', diagnosisCode = Some ''J18.9'',
       ctx_severity = Some ''severe'' \<rparr>"


definition atrialFibrillation :: ClinicalContext where
  "atrialFibrillation =
     \<lparr> diagnosis = ''Atrial fibrillation'', diagnosisCode = Some ''I48'',
       ctx_severity = None \<rparr>"

section \<open>Safety engine: aggregation of the alerts\<close>

text \<open>
  Claim C1. Whenever \<open>performSafetyCheck\<close> returns a result: \<open>criticalAlerts\<close> is the
  sublist of \<open>alerts\<close> of severity Critical; \<open>requiresOverride\<close> holds exactly when some
  critical alert cannot be overridden; \<open>safe\<close> holds exactly when there is no critical
  alert. In particular an alert that is Critical and not overridable forces
  \<open>requiresOverride\<close>.
\<close>

theorem performSafetyCheck_aggregation:
  assumes "performSafetyCheck db patientContext proposedMedications = Inr r"
  shows "criticalAlerts r = filter (\<lambda>a. severity a = CRITICAL) (alerts r)
       \<and> (requiresOverride r \<longleftrightarrow> (\<exists>a \<in> set (criticalAlerts r). \<not> canOverride a))
       \<and> (safe r \<longleftrightarrow> criticalAlerts r = [])
       \<and> ((\<exists>a \<in> set (alerts r). severity a = CRITICAL \<and> \<not> canOverride a)
            \<longrightarrow> requiresOverride r)"
  using assms
  by (auto simp: performSafetyCheck_def Let_def list_ex_iff split: sum.splits)

text \<open>
  Warfarin proposed for a pregnant patient: one alert, Critical and not overridable, so
  the result is unsafe and requires an override.
\<close>

theorem performSafetyCheck_aggregation_witness:
  "performSafetyCheck sampleDb pregnantPatient
      [\<lparr> medicationId = ''med-warf'', dose = ''5mg'' \<rparr>]
     = Inr \<lparr> safe = False,
             alerts = [pregnancyContraindicatedAlert warfarin],
             criticalAlerts = [pregnancyContraindicatedAlert warfarin],
             requiresOverride = True \<rparr>
   \<and> severity (pregnancyContraindicatedAlert warfarin) = CRITICAL
   \<and> \<not> canOverride (pregnancyContraindicatedAlert warfarin)"
proof -
  let ?r = "\<lparr> safe = False,
             alerts = [pregnancyContraindicatedAlert warfarin],
             criticalAlerts = [pregnancyContraindicatedAlert warfarin],
             requiresOverride = True \<rparr>"
  have run: "performSafetyCheck sampleDb pregnantPatient
      [\<lparr> medicationId = ''med-warf'', dose = ''5mg'' \<rparr>] = Inr ?r"
    by code_simp
  from performSafetyCheck_aggregation [OF run]
  have "criticalAlerts ?r = filter (\<lambda>a. severity a = CRITICAL) (alerts ?r)"
    by blast
  then have "severity (pregnancyContraindicatedAlert warfarin) = CRITICAL"
    by (simp split: if_splits)
  with run show ?thesis
    by (simp add: pregnancyContraindicatedAlert_def)
qed

section \<open>Safety engine: the allergy check\<close>

subsection \<open>What the allergy check emits\<close>

lemma in_concat_map_option:
  "x \<in> set (concat (map (\<lambda>med. case med of None \<Rightarrow> [] | Some m \<Rightarrow> f m) meds))
     \<longleftrightarrow> (\<exists>m. Some m \<in> set meds \<and> x \<in> set (f m))"
  by (induction meds) (auto split: option.splits)

lemma checkAllergies_mem:
  "al \<in> set (checkAllergies patientContext meds) \<longleftrightarrow>
     (\<exists>als m b. allergies patientContext = Some als \<and> Some m \<in> set meds \<and> b \<in> set als
        \<and> al \<in> set (allergyAlertsFor m b))"
proof (cases "allergies patientContext")
  case None
  then show ?thesis by (simp add: checkAllergies_def)
next
  case (Some als)
  show ?thesis
  proof (cases "als = []")
    case True
    with Some show ?thesis by (simp add: checkAllergies_def)
  next
    case False
    with Some show ?thesis
      by (simp add: checkAllergies_def in_concat_map_option) blast
  qed
qed

lemma allergyAlertsFor_cases:
  "al \<in> set (allergyAlertsFor m b) \<longleftrightarrow>
     (directMatch m b \<and> al = directMatchAlert m b)
     \<or> (checkCrossSensitivity (allergen b) (genericName m) \<and> al = crossSensitivityAlert m b)"
  by (auto simp: allergyAlertsFor_def)

text \<open>
  Claim C3. Every direct-match alert of the allergy check (the generic name contains the
  allergen, or the allergen the generic name, ignoring case) is Critical when the allergy
  severity is \<open>SEVERE\<close> or \<open>LIFE_THREATENING\<close> and Warning otherwise, and can be
  overridden exactly when the allergy severity is not \<open>LIFE_THREATENING\<close>; a Severe
  allergy gives a Critical alert that can be overridden. The alert is emitted for every
  matching pair, and the check emits nothing but such direct-match alerts and
  cross-sensitivity alerts.
\<close>

theorem direct_match_alert_policy:
  assumes "allergies patientContext = Some als"
    and "a \<in> set als"
    and "Some med \<in> set meds"
    and "directMatch med a"
  shows "directMatchAlert med a \<in> set (checkAllergies patientContext meds)
       \<and> severity (directMatchAlert med a) =
           (if allergy_severity a = ''SEVERE'' \<or> allergy_severity a = ''LIFE_THREATENING''
            then CRITICAL else WARNING)
       \<and> (canOverride (directMatchAlert med a) \<longleftrightarrow> allergy_severity a \<noteq> ''LIFE_THREATENING'')
       \<and> (\<forall>al \<in> set (checkAllergies patientContext meds).
             \<exists>m b. Some m \<in> set meds \<and> b \<in> set als
               \<and> (directMatch m b \<and> al = directMatchAlert m b
                    \<or> checkCrossSensitivity (allergen b) (genericName m)
                       \<and> al = crossSensitivityAlert m b))"
proof -
  have "directMatchAlert med a \<in> set (allergyAlertsFor med a)"
    using assms(4) by (simp add: allergyAlertsFor_cases)
  then have "directMatchAlert med a \<in> set (checkAllergies patientContext meds)"
    using assms(1-3) by (auto simp: checkAllergies_mem)
  moreover have "\<forall>al \<in> set (checkAllergies patientContext meds).
             \<exists>m b. Some m \<in> set meds \<and> b \<in> set als
               \<and> (directMatch m b \<and> al = directMatchAlert m b
                    \<or> checkCrossSensitivity (allergen b) (genericName m)
                       \<and> al = crossSensitivityAlert m b)"
    using assms(1) by (auto simp: checkAllergies_mem allergyAlertsFor_cases)
  ultimately show ?thesis
    by (auto simp: directMatchAlert_def)
qed

text \<open>A Severe allergy to amoxicillin and amoxicillin proposed: Critical, overridable.\<close>

theorem direct_match_alert_policy_witness:
  "directMatch amoxicillin \<lparr> allergen = ''amoxicillin'', allergy_severity = ''SEVERE'' \<rparr>
   \<and> directMatchAlert amoxicillin \<lparr> allergen = ''amoxicillin'', allergy_severity = ''SEVERE'' \<rparr>
       \<in> set (checkAllergies
                (adultPatient \<lparr> allergies := Some [\<lparr> allergen = ''amoxicillin'', allergy_severity = ''SEVERE'' \<rparr>] \<rparr>)
                [Some amoxicillin])
   \<and> severity (directMatchAlert amoxicillin \<lparr> allergen = ''amoxicillin'', allergy_severity = ''SEVERE'' \<rparr>) = CRITICAL
   \<and> canOverride (directMatchAlert amoxicillin \<lparr> allergen = ''amoxicillin'', allergy_severity = ''SEVERE'' \<rparr>)"
proof -
  let ?a = "\<lparr> allergen = ''amoxicillin'', allergy_severity = ''SEVERE'' \<rparr>"
  let ?pc = "adultPatient \<lparr> allergies := Some [?a] \<rparr>"
  have d: "directMatch amoxicillin ?a"
    by code_simp
  have h: "allergies ?pc = Some [?a]" "?a \<in> set [?a]" "Some amoxicillin \<in> set [Some amoxicillin]"
    by simp_all
  from direct_match_alert_policy [OF h d] d show ?thesis
    by simp
qed

subsection \<open>The alert types of the other seven checks\<close>

lemma checkDrugInteractions_type:
  "al \<in> set (checkDrugInteractions db meds cur) \<Longrightarrow> alert_type al = DRUG_INTERACTION"
  by (auto simp: checkDrugInteractions_def pairAlerts_def currentAlerts_def
      proposedInteractionAlert_def currentInteractionAlert_def split: option.splits)

lemma checkContraindications_type:
  "al \<in> set (checkContraindications pc meds) \<Longrightarrow> alert_type al = CONTRAINDICATION"
  by (auto simp: checkContraindications_def contraindicationAlert_def split: option.splits if_splits)

lemma checkDuplicateTherapy_type:
  "checkDuplicateTherapy meds cur = Inr als \<Longrightarrow> al \<in> set als \<Longrightarrow> alert_type al = DUPLICATE_THERAPY"
  by (auto simp: checkDuplicateTherapy_def sameDrugAlerts_def classAlerts_def
      duplicateMedicationAlert_def classAlert_def split: sum.splits option.splits if_splits)

lemma checkDoseRanges_type:
  "al \<in> set (checkDoseRanges pc pms meds) \<Longrightarrow> alert_type al = DOSE_RANGE"
  by (auto simp: checkDoseRanges_def doseAlertsFor_def pediatricWeightAlert_def highDoseAlert_def
      split: option.splits if_splits)

lemma checkOrganFunction_type:
  "al \<in> set (checkOrganFunction pc meds) \<Longrightarrow>
     alert_type al = RENAL_ADJUSTMENT \<or> alert_type al = HEPATIC_ADJUSTMENT"
  by (auto simp: checkOrganFunction_def renalAlert_def hepaticAlert_def Let_def
      split: option.splits if_splits)

lemma checkPregnancyLactation_type:
  "al \<in> set (checkPregnancyLactation pc meds) \<Longrightarrow>
     alert_type al = PREGNANCY_WARNING \<or> alert_type al = LACTATION_WARNING"
  by (auto simp: checkPregnancyLactation_def pregnancyContraindicatedAlert_def
      pregnancyCautionAlert_def lactationAlert_def split: option.splits if_splits)

lemma checkAgeSpecific_type:
  "al \<in> set (checkAgeSpecific pc meds) \<Longrightarrow> alert_type al = AGE_WARNING"
  by (auto simp: checkAgeSpecific_def pediatricAlert_def geriatricAlert_def Let_def
      split: option.splits if_splits)

lemma allergy_alerts_of_result:
  assumes "performSafetyCheck db pc pms = Inr r"
  shows "{al \<in> set (alerts r). alert_type al = ALLERGY}
       = set (checkAllergies pc (map (\<lambda>pm. findUniqueMedication db (medicationId pm)) pms))"
proof -
  let ?meds = "map (\<lambda>pm. findUniqueMedication db (medicationId pm)) pms"
  let ?cur = "case currentMedications pc of None \<Rightarrow> [] | Some c \<Rightarrow> c"
  from assms obtain dup where
    d: "checkDuplicateTherapy ?meds ?cur = Inr dup"
    and a: "alerts r = allAlerts db pc pms ?meds dup"
    by (auto simp: performSafetyCheck_def Let_def split: sum.splits)
  have t: "alert_type al = ALLERGY" if "al \<in> set (checkAllergies pc ?meds)" for al
    using that
    by (auto simp: checkAllergies_mem allergyAlertsFor_cases directMatchAlert_def
        crossSensitivityAlert_def)
  have n1: "alert_type al \<noteq> ALLERGY" if "al \<in> set (checkDrugInteractions db ?meds ?cur)" for al
    using checkDrugInteractions_type [OF that] by simp
  have n2: "alert_type al \<noteq> ALLERGY" if "al \<in> set (checkContraindications pc ?meds)" for al
    using checkContraindications_type [OF that] by simp
  have n3: "alert_type al \<noteq> ALLERGY" if "al \<in> set dup" for al
    using checkDuplicateTherapy_type [OF d that] by simp
  have n4: "alert_type al \<noteq> ALLERGY" if "al \<in> set (checkDoseRanges pc pms ?meds)" for al
    using checkDoseRanges_type [OF that] by simp
  have n5: "alert_type al \<noteq> ALLERGY" if "al \<in> set (checkOrganFunction pc ?meds)" for al
    using checkOrganFunction_type [OF that] by auto
  have n6: "alert_type al \<noteq> ALLERGY" if "al \<in> set (checkPregnancyLactation pc ?meds)" for al
    using checkPregnancyLactation_type [OF that] by auto
  have n7: "alert_type al \<noteq> ALLERGY" if "al \<in> set (checkAgeSpecific pc ?meds)" for al
    using checkAgeSpecific_type [OF that] by simp
  have s: "set (alerts r) = set (checkAllergies pc ?meds)
      \<union> set (checkDrugInteractions db ?meds ?cur) \<union> set (checkContraindications pc ?meds)
      \<union> set dup \<union> set (checkDoseRanges pc pms ?meds) \<union> set (checkOrganFunction pc ?meds)
      \<union> set (checkPregnancyLactation pc ?meds) \<union> set (checkAgeSpecific pc ?meds)"
    unfolding a allAlerts_def by (simp add: Un_assoc)
  show ?thesis
    unfolding s using t n1 n2 n3 n4 n5 n6 n7 by blast
qed

subsection \<open>Penicillin allergy and amoxicillin\<close>

text \<open>
  Claim C2 as the specification states it: a patient allergic to "Penicillin" who is
  given "Amoxicillin" gets two allergy alerts, a direct-match one and a cross-sensitivity
  one. On the code the check returns one alert: neither of the lower-cased names
  \<open>amoxicillin\<close> and \<open>penicillin\<close> contains the other, so the direct-match branch
  does not fire. (The unit test shown in the contributing guide expects one alert, too.)
\<close>

theorem penicillin_amoxicillin_counterexample:
  "allergen penicillinAllergy = ''Penicillin''
   \<and> allergies adultPatient = Some [penicillinAllergy]
   \<and> findUniqueMedication sampleDb ''med-amox'' = Some amoxicillin
   \<and> genericName amoxicillin = ''Amoxicillin''
   \<and> performSafetyCheck sampleDb adultPatient [\<lparr> medicationId = ''med-amox'', dose = ''500mg'' \<rparr>]
       = Inr \<lparr> safe = True,
               alerts = [crossSensitivityAlert amoxicillin penicillinAllergy],
               criticalAlerts = [],
               requiresOverride = False \<rparr>"
  by code_simp

lemma amoxicillin_penicillin_no_direct_match:
  assumes "genericName med = ''Amoxicillin''" and "allergen a = ''Penicillin''"
  shows "\<not> directMatch med a"
proof -
  have "\<not> (includesStr (toLowerCase ''Amoxicillin'') (toLowerCase ''Penicillin'')
           \<or> includesStr (toLowerCase ''Penicillin'') (toLowerCase ''Amoxicillin''))"
    by code_simp
  with assms show ?thesis by (simp add: directMatch_def)
qed

lemma amoxicillin_penicillin_cross:
  assumes "genericName med = ''Amoxicillin''" and "allergen a = ''Penicillin''"
  shows "checkCrossSensitivity (allergen a) (genericName med)"
proof -
  have "checkCrossSensitivity ''Penicillin'' ''Amoxicillin''"
    by code_simp
  with assms show ?thesis by simp
qed

lemma directMatchAlert_names:
  assumes "directMatchAlert m b = directMatchAlert med a"
  shows "genericName m = genericName med \<and> allergen b = allergen a"
proof -
  from assms have "recommendation (directMatchAlert m b) = recommendation (directMatchAlert med a)"
    and "clinicalRationale (directMatchAlert m b) = clinicalRationale (directMatchAlert med a)"
    by simp_all
  then show ?thesis
    by (simp add: directMatchAlert_def)
qed

lemma directMatch_cong:
  "genericName m = genericName med \<Longrightarrow> allergen b = allergen a \<Longrightarrow> directMatch m b = directMatch med a"
  by (simp add: directMatch_def)

lemma cross_not_direct: "crossSensitivityAlert m b \<noteq> directMatchAlert med a"
proof
  assume "crossSensitivityAlert m b = directMatchAlert med a"
  then have "message (crossSensitivityAlert m b) = message (directMatchAlert med a)" by simp
  then show False by (simp add: crossSensitivityAlert_def directMatchAlert_def)
qed

text \<open>
  Claim C2, amended. Take a patient, an allergy \<open>a\<close> of theirs, and a proposed entry that
  resolves to the medication \<open>med\<close>, in a call of \<open>performSafetyCheck\<close> that returns \<open>r\<close>.
  If the allergen is "Penicillin" and the generic name "Amoxicillin", the pair
  contributes exactly one allergy alert, the cross-sensitivity alert, and \<open>r\<close> holds that
  alert and no direct-match alert for the pair. In general the cross-sensitivity alert
  is an allergy alert, a Warning that can be overridden, and differs from the
  direct-match alert; \<open>r\<close> holds it whenever the cross-sensitivity test holds, whatever
  the direct-match test says, and holds the direct-match alert whenever that test holds.
  When both tests hold the pair contributes the two alerts, direct-match first; when
  only the cross-sensitivity test holds, the cross-sensitivity alert alone; when it
  fails, no cross-sensitivity alert.
\<close>

theorem penicillin_amoxicillin_cross_sensitivity_only:
  assumes "allergies patientContext = Some als"
    and "a \<in> set als"
    and "pm \<in> set proposedMedications"
    and "findUniqueMedication db (medicationId pm) = Some med"
    and "performSafetyCheck db patientContext proposedMedications = Inr r"
  shows "(allergen a = ''Penicillin'' \<and> genericName med = ''Amoxicillin'' \<longrightarrow>
            allergyAlertsFor med a = [crossSensitivityAlert med a]
          \<and> crossSensitivityAlert med a \<in> set (alerts r)
          \<and> directMatchAlert med a \<notin> set (alerts r))
       \<and> alert_type (crossSensitivityAlert med a) = ALLERGY
       \<and> severity (crossSensitivityAlert med a) = WARNING
       \<and> canOverride (crossSensitivityAlert med a)
       \<and> crossSensitivityAlert med a \<noteq> directMatchAlert med a
       \<and> (checkCrossSensitivity (allergen a) (genericName med) \<longrightarrow>
            crossSensitivityAlert med a \<in> set (alerts r))
       \<and> (directMatch med a \<longrightarrow> directMatchAlert med a \<in> set (alerts r))
       \<and> (directMatch med a \<and> checkCrossSensitivity (allergen a) (genericName med) \<longrightarrow>
            allergyAlertsFor med a = [directMatchAlert med a, crossSensitivityAlert med a])
       \<and> (\<not> directMatch med a \<and> checkCrossSensitivity (allergen a) (genericName med) \<longrightarrow>
            allergyAlertsFor med a = [crossSensitivityAlert med a])
       \<and> (\<not> checkCrossSensitivity (allergen a) (genericName med) \<longrightarrow>
            crossSensitivityAlert med a \<notin> set (allergyAlertsFor med a))"
proof -
  let ?meds = "map (\<lambda>pm. findUniqueMedication db (medicationId pm)) proposedMedications"
  have res: "Some med \<in> set ?meds"
    using assms(3,4) by force
  have al: "{al \<in> set (alerts r). alert_type al = ALLERGY} = set (checkAllergies patientContext ?meds)"
    using assms(5) by (rule allergy_alerts_of_result)
  have sub: "set (allergyAlertsFor med a) \<subseteq> set (alerts r)"
  proof
    fix x assume "x \<in> set (allergyAlertsFor med a)"
    with assms(1,2) res have "x \<in> set (checkAllergies patientContext ?meds)"
      unfolding checkAllergies_mem by blast
    with al show "x \<in> set (alerts r)" by blast
  qed
  have c1: "crossSensitivityAlert med a \<in> set (alerts r)"
    if "checkCrossSensitivity (allergen a) (genericName med)"
    using that sub by (auto simp: allergyAlertsFor_def)
  have d1: "directMatchAlert med a \<in> set (alerts r)" if "directMatch med a"
    using that sub by (auto simp: allergyAlertsFor_def)
  have pa: "allergyAlertsFor med a = [crossSensitivityAlert med a]
          \<and> crossSensitivityAlert med a \<in> set (alerts r)
          \<and> directMatchAlert med a \<notin> set (alerts r)"
    if p: "allergen a = ''Penicillin''" and g: "genericName med = ''Amoxicillin''"
  proof -
    have nd: "\<not> directMatch med a"
      by (rule amoxicillin_penicillin_no_direct_match [OF g p])
    have cs: "checkCrossSensitivity (allergen a) (genericName med)"
      by (rule amoxicillin_penicillin_cross [OF g p])
    have one: "allergyAlertsFor med a = [crossSensitivityAlert med a]"
      using nd cs by (simp add: allergyAlertsFor_def)
    have "directMatchAlert med a \<notin> set (checkAllergies patientContext ?meds)"
    proof
      assume "directMatchAlert med a \<in> set (checkAllergies patientContext ?meds)"
      then obtain m b where mb: "directMatchAlert med a \<in> set (allergyAlertsFor m b)"
        unfolding checkAllergies_mem by blast
      then have "directMatch m b \<and> directMatchAlert m b = directMatchAlert med a"
        using cross_not_direct [of m b med a] by (auto simp: allergyAlertsFor_cases)
      then show False
        using nd directMatchAlert_names directMatch_cong by blast
    qed
    moreover have "alert_type (directMatchAlert med a) = ALLERGY"
      by (simp add: directMatchAlert_def)
    ultimately have "directMatchAlert med a \<notin> set (alerts r)"
      using al by blast
    with one c1 [OF cs] show ?thesis by simp
  qed
  have props: "alert_type (crossSensitivityAlert med a) = ALLERGY
       \<and> severity (crossSensitivityAlert med a) = WARNING
       \<and> canOverride (crossSensitivityAlert med a)"
    by (simp add: crossSensitivityAlert_def)
  have lists: "(directMatch med a \<and> checkCrossSensitivity (allergen a) (genericName med) \<longrightarrow>
            allergyAlertsFor med a = [directMatchAlert med a, crossSensitivityAlert med a])
       \<and> (\<not> directMatch med a \<and> checkCrossSensitivity (allergen a) (genericName med) \<longrightarrow>
            allergyAlertsFor med a = [crossSensitivityAlert med a])
       \<and> (\<not> checkCrossSensitivity (allergen a) (genericName med) \<longrightarrow>
            crossSensitivityAlert med a \<notin> set (allergyAlertsFor med a))"
    using cross_not_direct [of med a med a] by (simp add: allergyAlertsFor_def)
  show ?thesis
    using pa props c1 d1 lists cross_not_direct [of med a med a] by blast
qed

text \<open>
  Two patients given amoxicillin: one allergic to "Penicillin", who gets the
  cross-sensitivity alert alone, and one whose allergy is recorded as
  "Penicillin (amoxicillin)", for whom both tests hold and who gets both alerts.
\<close>

theorem penicillin_amoxicillin_cross_sensitivity_only_witness:
  "allergies adultPatient = Some [penicillinAllergy]
   \<and> allergen penicillinAllergy = ''Penicillin''
   \<and> findUniqueMedication sampleDb ''med-amox'' = Some amoxicillin
   \<and> genericName amoxicillin = ''Amoxicillin''
   \<and> (\<exists>r. performSafetyCheck sampleDb adultPatient
              [\<lparr> medicationId = ''med-amox'', dose = ''500mg'' \<rparr>] = Inr r
          \<and> crossSensitivityAlert amoxicillin penicillinAllergy \<in> set (alerts r)
          \<and> directMatchAlert amoxicillin penicillinAllergy \<notin> set (alerts r))
   \<and> allergyAlertsFor amoxicillin penicillinAllergy
        = [crossSensitivityAlert amoxicillin penicillinAllergy]
   \<and> directMatch amoxicillin \<lparr> allergen = ''Penicillin (amoxicillin)'', allergy_severity = ''SEVERE'' \<rparr>
   \<and> checkCrossSensitivity ''Penicillin (amoxicillin)'' (genericName amoxicillin)
   \<and> (\<exists>r. performSafetyCheck sampleDb
              (adultPatient \<lparr> allergies :=
                 Some [\<lparr> allergen = ''Penicillin (amoxicillin)'', allergy_severity = ''SEVERE'' \<rparr>] \<rparr>)
              [\<lparr> medicationId = ''med-amox'', dose = ''500mg'' \<rparr>] = Inr r
          \<and> directMatchAlert amoxicillin
               \<lparr> allergen = ''Penicillin (amoxicillin)'', allergy_severity = ''SEVERE'' \<rparr> \<in> set (alerts r)
          \<and> crossSensitivityAlert amoxicillin
               \<lparr> allergen = ''Penicillin (amoxicillin)'', allergy_severity = ''SEVERE'' \<rparr> \<in> set (alerts r))
   \<and> allergyAlertsFor amoxicillin \<lparr> allergen = ''Penicillin (amoxicillin)'', allergy_severity = ''SEVERE'' \<rparr>
        = [directMatchAlert amoxicillin
             \<lparr> allergen = ''Penicillin (amoxicillin)'', allergy_severity = ''SEVERE'' \<rparr>,
           crossSensitivityAlert amoxicillin
             \<lparr> allergen = ''Penicillin (amoxicillin)'', allergy_severity = ''SEVERE'' \<rparr>]"
proof -
  let ?pm = "\<lparr> medicationId = ''med-amox'', dose = ''500mg'' \<rparr>"
  let ?b = "\<lparr> allergen = ''Penicillin (amoxicillin)'', allergy_severity = ''SEVERE'' \<rparr>"
  let ?pc = "adultPatient \<lparr> allergies := Some [?b] \<rparr>"
  have h1: "allergies adultPatient = Some [penicillinAllergy]"
    by (simp add: adultPatient_def)
  have h2: "penicillinAllergy \<in> set [penicillinAllergy]" by simp
  have h3: "allergen penicillinAllergy = ''Penicillin''"
    by (simp add: penicillinAllergy_def)
  have h4: "?pm \<in> set [?pm]" by simp
  have h5: "findUniqueMedication sampleDb (medicationId ?pm) = Some amoxicillin"
    by code_simp
  have h6: "genericName amoxicillin = ''Amoxicillin''"
    by (simp add: amoxicillin_def)
  have "\<not> isl (performSafetyCheck sampleDb adultPatient [?pm])"
    by code_simp
  then obtain r where h7: "performSafetyCheck sampleDb adultPatient [?pm] = Inr r"
    by (cases "performSafetyCheck sampleDb adultPatient [?pm]") auto
  have k1: "allergies ?pc = Some [?b]" by simp
  have k2: "?b \<in> set [?b]" by simp
  have k3: "directMatch amoxicillin ?b"
    by code_simp
  have k4: "checkCrossSensitivity (allergen ?b) (genericName amoxicillin)"
    by code_simp
  have "\<not> isl (performSafetyCheck sampleDb ?pc [?pm])"
    by code_simp
  then obtain r' where k7: "performSafetyCheck sampleDb ?pc [?pm] = Inr r'"
    by (cases "performSafetyCheck sampleDb ?pc [?pm]") auto
  have first: "\<exists>r. performSafetyCheck sampleDb adultPatient [?pm] = Inr r
          \<and> crossSensitivityAlert amoxicillin penicillinAllergy \<in> set (alerts r)
          \<and> directMatchAlert amoxicillin penicillinAllergy \<notin> set (alerts r)"
    and one: "allergyAlertsFor amoxicillin penicillinAllergy
        = [crossSensitivityAlert amoxicillin penicillinAllergy]"
    using penicillin_amoxicillin_cross_sensitivity_only [OF h1 h2 h4 h5 h7] h3 h6 h7
    by auto
  have second: "\<exists>r. performSafetyCheck sampleDb ?pc [?pm] = Inr r
          \<and> directMatchAlert amoxicillin ?b \<in> set (alerts r)
          \<and> crossSensitivityAlert amoxicillin ?b \<in> set (alerts r)"
    and two: "allergyAlertsFor amoxicillin ?b
        = [directMatchAlert amoxicillin ?b, crossSensitivityAlert amoxicillin ?b]"
    using penicillin_amoxicillin_cross_sensitivity_only [OF k1 k2 h4 h5 k7] k3 k4 k7
    by auto
  from h1 h3 h5 h6 first one k3 k4 second two show ?thesis
    by simp
qed

section \<open>Rules engine: the dosing policy\<close>

text \<open>
  Claim C4 as the specification states it: a renal function that is present and below 50
  makes the frequency once daily. The guard of the source is
  \<^verbatim>\<open>renalFunction && renalFunction < 50\<close>, and an eGFR of \<open>0\<close> is falsy: it is
  present and below 50, and the frequency stays \<open>BID\<close>. (The callers build the context
  with \<^verbatim>\<open>renalFunction || undefined\<close>: a zero is "not recorded" throughout.)
\<close>

theorem calculateDose_zero_egfr_counterexample:
  "renalFunction (adultPatient \<lparr> renalFunction := Some 0 \<rparr>) = Some 0
   \<and> (0::int) < 50
   \<and> ctx_severity pneumonia = None
   \<and> calc_frequency (calculateDose amoxicillin (adultPatient \<lparr> renalFunction := Some 0 \<rparr>) pneumonia) = ''BID''"
  by (simp add: calculateDose_def adultPatient_def pneumonia_def amoxicillin_def)

text \<open>
  Claim C4, amended. The route is the medication's. Unless the clinical severity is
  \<open>severe\<close>, the duration is 7 days and the frequency is \<open>BID\<close> (twice daily), or
  \<open>QD\<close> (once daily) when the renal function is present, not zero and below 50. When
  the severity is \<open>severe\<close>, the duration is 10-14 days and the frequency is \<open>Q6H\<close>
  (four times daily) for the route \<open>IV\<close> and \<open>TID\<close> (three times daily) otherwise,
  whatever the renal function: the severity adjustment comes last and overwrites the
  renal one.
\<close>

theorem calculateDose_policy:
  "calc_route (calculateDose med patientContext clinicalContext) = route med
   \<and> (ctx_severity clinicalContext \<noteq> Some ''severe'' \<longrightarrow>
        calc_duration (calculateDose med patientContext clinicalContext) = ''7 days''
        \<and> calc_frequency (calculateDose med patientContext clinicalContext) =
            (if \<exists>egfr. renalFunction patientContext = Some egfr \<and> egfr \<noteq> 0 \<and> egfr < 50
             then ''QD'' else ''BID''))
   \<and> (ctx_severity clinicalContext = Some ''severe'' \<longrightarrow>
        calc_duration (calculateDose med patientContext clinicalContext) = ''10-14 days''
        \<and> calc_frequency (calculateDose med patientContext clinicalContext) =
            (if route med = ''IV'' then ''Q6H'' else ''TID''))"
  by (simp add: calculateDose_def Let_def split: option.split)

theorem calculateDose_policy_witness:
  "ctx_severity severePneumonia = Some ''severe''
   \<and> renalFunction pregnantPatient = Some 40
   \<and> calc_frequency (calculateDose amoxicillin pregnantPatient severePneumonia) = ''TID''
   \<and> calc_duration (calculateDose amoxicillin pregnantPatient severePneumonia) = ''10-14 days''
   \<and> calc_frequency (calculateDose (amoxicillin \<lparr> route := ''IV'' \<rparr>) pregnantPatient severePneumonia) = ''Q6H''
   \<and> ctx_severity pneumonia \<noteq> Some ''severe''
   \<and> calc_frequency (calculateDose amoxicillin pregnantPatient pneumonia) = ''QD''
   \<and> calc_frequency (calculateDose amoxicillin adultPatient pneumonia) = ''BID''
   \<and> calc_duration (calculateDose amoxicillin adultPatient pneumonia) = ''7 days''"
proof -
  have s: "ctx_severity severePneumonia = Some ''severe''"
    and n: "ctx_severity pneumonia \<noteq> Some ''severe''"
    by (simp_all add: severePneumonia_def pneumonia_def)
  have r: "renalFunction pregnantPatient = Some 40" "renalFunction adultPatient = Some 90"
    by (simp_all add: pregnantPatient_def adultPatient_def)
  show ?thesis
    using calculateDose_policy [of amoxicillin pregnantPatient severePneumonia]
      calculateDose_policy [of "amoxicillin \<lparr> route := ''IV'' \<rparr>" pregnantPatient severePneumonia]
      calculateDose_policy [of amoxicillin pregnantPatient pneumonia]
      calculateDose_policy [of amoxicillin adultPatient pneumonia]
      s n r
    by (simp add: amoxicillin_def)
qed

section \<open>Rules engine: the fallback path\<close>

lemma findMatchingRules_none:
  assumes "\<forall>c. diagnosisCode clinicalContext = Some c \<longrightarrow>
             (\<forall>r \<in> set (tbl_clinicalRule db). rule_isActive r \<longrightarrow> c \<notin> set (diagnosisCodes r))"
  shows "findMatchingRules db clinicalContext = []"
  using assms
  by (auto simp: findMatchingRules_def filter_empty_conv split: option.splits)

lemma findAccessAntibiotics_empty:
  "findAccessAntibiotics db = [] \<longleftrightarrow>
     \<not> (\<exists>m \<in> set (tbl_medication db). isAntibiotic m \<and> awaRe m = ACCESS \<and> isActive m)"
proof -
  have "sort_key med_id xs = [] \<longleftrightarrow> xs = []" for xs :: "Medication list"
    by (metis length_0_conv length_sort)
  then show ?thesis
    by (auto simp: findAccessAntibiotics_def filter_empty_conv)
qed

lemma findAccessAntibiotics_head:
  assumes "findAccessAntibiotics db = p # others"
  shows "p \<in> set (tbl_medication db) \<and> isAntibiotic p \<and> awaRe p = ACCESS \<and> isActive p
       \<and> (\<forall>m \<in> set (tbl_medication db).
             isAntibiotic m \<and> awaRe m = ACCESS \<and> isActive m \<longrightarrow> med_id p \<le> med_id m)"
proof -
  define xs where "xs = sort_key med_id
     (filter (\<lambda>m. isAntibiotic m \<and> awaRe m = ACCESS \<and> isActive m) (tbl_medication db))"
  have t: "take 5 xs = p # others"
    using assms by (simp add: findAccessAntibiotics_def xs_def)
  then obtain ys where xs: "xs = p # ys"
    by (cases xs) auto
  have s: "sorted (map med_id xs)"
    by (simp add: xs_def)
  have m: "set xs = {m \<in> set (tbl_medication db). isAntibiotic m \<and> awaRe m = ACCESS \<and> isActive m}"
    by (auto simp: xs_def)
  have "p \<in> set xs" by (simp add: xs)
  moreover have "\<forall>y \<in> set xs. med_id p \<le> med_id y"
    using s by (auto simp: xs)
  ultimately show ?thesis
    unfolding m by blast
qed

text \<open>
  Claim C5. When no active rule has the diagnosis code in its code list (in particular
  when the code is absent), \<open>getRecommendations\<close> takes the fallback path. If the catalog
  has an active Access antibiotic, the query result is a non-empty list \<open>p # others\<close> and
  the call returns: as primary the recommendation of \<open>p\<close>, the active Access antibiotic
  of least id, dosed by \<open>calculateDose\<close>, first-line, of confidence 60, with the
  empiric-therapy rationale and the source "WHO AWaRe Classification"; as alternatives
  exactly the next two rows of the query result (\<^verbatim>\<open>slice(1, 3)\<close>, fewer when fewer
  remain), each dosed by \<open>calculateDose\<close>, not first-line and of confidence 50; the one
  rule name "General antibiotic stewardship principles"; and the no-specific-rule notice
  as the only warning. If the catalog has none, it fails with the
  "No suitable medications found" error.
\<close>

theorem fallback_recommendation:
  assumes "\<forall>c. diagnosisCode clinicalContext = Some c \<longrightarrow>
             (\<forall>r \<in> set (tbl_clinicalRule db). rule_isActive r \<longrightarrow> c \<notin> set (diagnosisCodes r))"
  shows "((\<exists>m \<in> set (tbl_medication db). isAntibiotic m \<and> awaRe m = ACCESS \<and> isActive m) \<longrightarrow>
            (\<exists>r p others.
                  getRecommendations db patientContext clinicalContext = Inr r
                \<and> take 5 (sort_key med_id
                     (filter (\<lambda>m. isAntibiotic m \<and> awaRe m = ACCESS \<and> isActive m)
                        (tbl_medication db))) = p # others
                \<and> medication (primary r) = p
                \<and> p \<in> set (tbl_medication db)
                \<and> isAntibiotic p \<and> awaRe p = ACCESS \<and> isActive p
                \<and> (\<forall>m \<in> set (tbl_medication db).
                       isAntibiotic m \<and> awaRe m = ACCESS \<and> isActive m \<longrightarrow> med_id p \<le> med_id m)
                \<and> rec_dose (primary r) = calc_dose (calculateDose p patientContext clinicalContext)
                \<and> frequency (primary r) = calc_frequency (calculateDose p patientContext clinicalContext)
                \<and> rec_route (primary r) = calc_route (calculateDose p patientContext clinicalContext)
                \<and> duration (primary r) = calc_duration (calculateDose p patientContext clinicalContext)
                \<and> rationale (primary r) = genericName p
                     @ '' is an Access antibiotic suitable for empiric therapy. Consider adjusting based on culture results.''
                \<and> isFirstLine (primary r)
                \<and> confidence (primary r) = 60
                \<and> rec_guidelineSource (primary r) = Some ''WHO AWaRe Classification''
                \<and> map medication (alternatives r) = take 2 others
                \<and> alternatives r = map (generalAlternative patientContext clinicalContext) (take 2 others)
                \<and> length (alternatives r) = min 2 (length others)
                \<and> length (alternatives r) \<le> 2
                \<and> (\<forall>a \<in> set (alternatives r).
                       confidence a = 50 \<and> \<not> isFirstLine a
                     \<and> rationale a = ''Alternative Access antibiotic option''
                     \<and> rec_dose a = calc_dose (calculateDose (medication a) patientContext clinicalContext)
                     \<and> frequency a = calc_frequency (calculateDose (medication a) patientContext clinicalContext)
                     \<and> rec_route a = calc_route (calculateDose (medication a) patientContext clinicalContext)
                     \<and> duration a = calc_duration (calculateDose (medication a) patientContext clinicalContext))
                \<and> rulesApplied r = [''General antibiotic stewardship principles'']
                \<and> generalWarning \<in> set (warnings r)
                \<and> warnings r = [generalWarning]))
       \<and> (\<not> (\<exists>m \<in> set (tbl_medication db). isAntibiotic m \<and> awaRe m = ACCESS \<and> isActive m) \<longrightarrow>
            getRecommendations db patientContext clinicalContext = Inl NoSuitableMedicationsFound)"
proof -
  have g: "getRecommendations db patientContext clinicalContext
             = getGeneralRecommendations db patientContext clinicalContext"
    by (simp add: getRecommendations_def findMatchingRules_none [OF assms])
  have alt: "medication (generalAlternative patientContext clinicalContext m) = m
           \<and> confidence (generalAlternative patientContext clinicalContext m) = 50
           \<and> \<not> isFirstLine (generalAlternative patientContext clinicalContext m)
           \<and> rationale (generalAlternative patientContext clinicalContext m)
               = ''Alternative Access antibiotic option''
           \<and> rec_dose (generalAlternative patientContext clinicalContext m)
               = calc_dose (calculateDose m patientContext clinicalContext)
           \<and> frequency (generalAlternative patientContext clinicalContext m)
               = calc_frequency (calculateDose m patientContext clinicalContext)
           \<and> rec_route (generalAlternative patientContext clinicalContext m)
               = calc_route (calculateDose m patientContext clinicalContext)
           \<and> duration (generalAlternative patientContext clinicalContext m)
               = calc_duration (calculateDose m patientContext clinicalContext)" for m
    by (simp add: generalAlternative_def Let_def)
  have med: "map medication (map (generalAlternative patientContext clinicalContext) ms) = ms" for ms
    by (induction ms) (simp_all add: alt)
  show ?thesis
  proof (cases "findAccessAntibiotics db")
    case Nil
    then show ?thesis
      unfolding g using findAccessAntibiotics_empty [of db]
      by (simp add: getGeneralRecommendations_def)
  next
    case (Cons p others)
    have ex: "\<exists>m \<in> set (tbl_medication db). isAntibiotic m \<and> awaRe m = ACCESS \<and> isActive m"
      using findAccessAntibiotics_empty [of db] Cons by (metis list.distinct(1))
    have src: "take 5 (sort_key med_id
                 (filter (\<lambda>m. isAntibiotic m \<and> awaRe m = ACCESS \<and> isActive m)
                    (tbl_medication db))) = p # others"
      using Cons by (simp add: findAccessAntibiotics_def)
    define r where "r = (case getGeneralRecommendations db patientContext clinicalContext of Inr x \<Rightarrow> x)"
    have r: "getGeneralRecommendations db patientContext clinicalContext = Inr r"
      by (simp add: r_def getGeneralRecommendations_def Cons Let_def)
    have p: "primary r =
               \<lparr> medication = p,
                 rec_dose = calc_dose (calculateDose p patientContext clinicalContext),
                 frequency = calc_frequency (calculateDose p patientContext clinicalContext),
                 rec_route = calc_route (calculateDose p patientContext clinicalContext),
                 duration = calc_duration (calculateDose p patientContext clinicalContext),
                 rationale = genericName p
                   @ '' is an Access antibiotic suitable for empiric therapy. Consider adjusting based on culture results.'',
                 isFirstLine = True, alternativeReason = None, confidence = 60,
                 rec_guidelineSource = Some ''WHO AWaRe Classification'',
                 rec_evidenceLevel = None \<rparr>"
      and a: "alternatives r = map (generalAlternative patientContext clinicalContext) (take 2 others)"
      and ra: "rulesApplied r = [''General antibiotic stewardship principles'']"
      and w: "warnings r = [generalWarning]"
      by (simp_all add: r_def getGeneralRecommendations_def Cons Let_def)
    have m: "map medication (alternatives r) = take 2 others"
      by (simp only: a med)
    have l: "length (alternatives r) = min 2 (length others)"
      by (simp add: a min.commute)
    have each: "\<forall>a \<in> set (alternatives r).
                       confidence a = 50 \<and> \<not> isFirstLine a
                     \<and> rationale a = ''Alternative Access antibiotic option''
                     \<and> rec_dose a = calc_dose (calculateDose (medication a) patientContext clinicalContext)
                     \<and> frequency a = calc_frequency (calculateDose (medication a) patientContext clinicalContext)
                     \<and> rec_route a = calc_route (calculateDose (medication a) patientContext clinicalContext)
                     \<and> duration a = calc_duration (calculateDose (medication a) patientContext clinicalContext)"
      unfolding a using alt by auto
    have "getRecommendations db patientContext clinicalContext = Inr r
                \<and> take 5 (sort_key med_id
                     (filter (\<lambda>m. isAntibiotic m \<and> awaRe m = ACCESS \<and> isActive m)
                        (tbl_medication db))) = p # others
                \<and> medication (primary r) = p
                \<and> p \<in> set (tbl_medication db)
                \<and> isAntibiotic p \<and> awaRe p = ACCESS \<and> isActive p
                \<and> (\<forall>m \<in> set (tbl_medication db).
                       isAntibiotic m \<and> awaRe m = ACCESS \<and> isActive m \<longrightarrow> med_id p \<le> med_id m)
                \<and> rec_dose (primary r) = calc_dose (calculateDose p patientContext clinicalContext)
                \<and> frequency (primary r) = calc_frequency (calculateDose p patientContext clinicalContext)
                \<and> rec_route (primary r) = calc_route (calculateDose p patientContext clinicalContext)
                \<and> duration (primary r) = calc_duration (calculateDose p patientContext clinicalContext)
                \<and> rationale (primary r) = genericName p
                     @ '' is an Access antibiotic suitable for empiric therapy. Consider adjusting based on culture results.''
                \<and> isFirstLine (primary r)
                \<and> confidence (primary r) = 60
                \<and> rec_guidelineSource (primary r) = Some ''WHO AWaRe Classification''
                \<and> map medication (alternatives r) = take 2 others
                \<and> alternatives r = map (generalAlternative patientContext clinicalContext) (take 2 others)
                \<and> length (alternatives r) = min 2 (length others)
                \<and> length (alternatives r) \<le> 2
                \<and> (\<forall>a \<in> set (alternatives r).
                       confidence a = 50 \<and> \<not> isFirstLine a
                     \<and> rationale a = ''Alternative Access antibiotic option''
                     \<and> rec_dose a = calc_dose (calculateDose (medication a) patientContext clinicalContext)
                     \<and> frequency a = calc_frequency (calculateDose (medication a) patientContext clinicalContext)
                     \<and> rec_route a = calc_route (calculateDose (medication a) patientContext clinicalContext)
                     \<and> duration a = calc_duration (calculateDose (medication a) patientContext clinicalContext))
                \<and> rulesApplied r = [''General antibiotic stewardship principles'']
                \<and> generalWarning \<in> set (warnings r)
                \<and> warnings r = [generalWarning]"
      using g r src m a l each ra w findAccessAntibiotics_head [OF Cons] by (simp add: p)
    then show ?thesis using ex by blast
  qed
qed

theorem fallback_recommendation_witness:
  "(\<exists>r. getRecommendations sampleDb adultPatient pneumonia = Inr r
        \<and> medication (primary r) = amoxicillin
        \<and> confidence (primary r) = 60
        \<and> map medication (alternatives r) = [ampicillin]
        \<and> length (alternatives r) \<le> 2
        \<and> rulesApplied r = [''General antibiotic stewardship principles'']
        \<and> warnings r = [generalWarning])
   \<and> getRecommendations (sampleDb \<lparr> tbl_medication := [cefalexin, warfarin] \<rparr>) adultPatient pneumonia
        = Inl NoSuitableMedicationsFound"
proof -
  have h1: "\<forall>c. diagnosisCode pneumonia = Some c \<longrightarrow>
       (\<forall>r \<in> set (tbl_clinicalRule sampleDb). rule_isActive r \<longrightarrow> c \<notin> set (diagnosisCodes r))"
    by (simp add: pneumonia_def sampleDb_def utiRule_def anticoagulationRule_def)
  have h2: "\<forall>c. diagnosisCode pneumonia = Some c \<longrightarrow>
       (\<forall>r \<in> set (tbl_clinicalRule (sampleDb \<lparr> tbl_medication := [cefalexin, warfarin] \<rparr>)).
           rule_isActive r \<longrightarrow> c \<notin> set (diagnosisCodes r))"
    by (simp add: pneumonia_def sampleDb_def utiRule_def anticoagulationRule_def)
  have a1: "\<exists>m \<in> set (tbl_medication sampleDb). isAntibiotic m \<and> awaRe m = ACCESS \<and> isActive m"
    by (simp add: sampleDb_def amoxicillin_def)
  have a2: "\<not> (\<exists>m \<in> set (tbl_medication (sampleDb \<lparr> tbl_medication := [cefalexin, warfarin] \<rparr>)).
       isAntibiotic m \<and> awaRe m = ACCESS \<and> isActive m)"
    by (simp add: cefalexin_def warfarin_def)
  have s: "take 5 (sort_key med_id
                     (filter (\<lambda>m. isAntibiotic m \<and> awaRe m = ACCESS \<and> isActive m)
                        (tbl_medication sampleDb))) = [amoxicillin, ampicillin]"
    by code_simp
  from fallback_recommendation [OF h1, of adultPatient] a1
  obtain r p others where r: "getRecommendations sampleDb adultPatient pneumonia = Inr r"
    "take 5 (sort_key med_id
                     (filter (\<lambda>m. isAntibiotic m \<and> awaRe m = ACCESS \<and> isActive m)
                        (tbl_medication sampleDb))) = p # others"
    "medication (primary r) = p"
    "map medication (alternatives r) = take 2 others"
    "confidence (primary r) = 60" "rulesApplied r = [''General antibiotic stewardship principles'']"
    "length (alternatives r) \<le> 2" "warnings r = [generalWarning]"
    by blast
  from r(2) s have ps: "p = amoxicillin" "others = [ampicillin]" by simp_all
  have "\<exists>r. getRecommendations sampleDb adultPatient pneumonia = Inr r
        \<and> medication (primary r) = amoxicillin
        \<and> confidence (primary r) = 60
        \<and> map medication (alternatives r) = [ampicillin]
        \<and> length (alternatives r) \<le> 2
        \<and> rulesApplied r = [''General antibiotic stewardship principles'']
        \<and> warnings r = [generalWarning]"
    using r ps by auto
  moreover from fallback_recommendation [OF h2, of adultPatient] a2
  have "getRecommendations (sampleDb \<lparr> tbl_medication := [cefalexin, warfarin] \<rparr>) adultPatient pneumonia
        = Inl NoSuitableMedicationsFound"
    by blast
  ultimately show ?thesis by blast
qed

section \<open>Rules engine: the primary medication and the catalog\<close>











section \<open>Rules engine: the rationale text\<close>

lemma startsWith_iff: "startsWith hay needle \<longleftrightarrow> (\<exists>s. hay = needle @ s)"
  by (induction hay needle rule: startsWith.induct) auto

lemma includesStr_iff: "includesStr hay needle \<longleftrightarrow> (\<exists>p s. hay = p @ needle @ s)"
proof (induction hay)
  case Nil
  then show ?case by auto
next
  case (Cons h hs)
  show ?case
  proof
    assume "includesStr (h # hs) needle"
    then consider "startsWith (h # hs) needle" | "includesStr hs needle" by auto
    then show "\<exists>p s. h # hs = p @ needle @ s"
    proof cases
      case 1
      then obtain s where "h # hs = needle @ s" by (auto simp: startsWith_iff)
      then have "h # hs = [] @ needle @ s" by simp
      then show ?thesis by blast
    next
      case 2
      with Cons obtain p s where "hs = p @ needle @ s" by blast
      then have "h # hs = (h # p) @ needle @ s" by simp
      then show ?thesis by blast
    qed
  next
    assume "\<exists>p s. h # hs = p @ needle @ s"
    then obtain p s where ps: "h # hs = p @ needle @ s" by blast
    show "includesStr (h # hs) needle"
    proof (cases p)
      case Nil
      with ps have "startsWith (h # hs) needle" by (auto simp: startsWith_iff)
      then show ?thesis by simp
    next
      case (Cons a p')
      with ps have "hs = p' @ needle @ s" by simp
      with Cons.IH have "includesStr hs needle" by blast
      then show ?thesis by simp
    qed
  qed
qed

lemma joinWith_snoc:
  "joinWith sep (ps @ [s]) = (if ps = [] then s else joinWith sep ps @ sep @ s)"
  by (induction sep ps rule: joinWith.induct) auto

lemma includesStr_self_suffix: "includesStr (p @ s) s"
proof -
  have "p @ s = p @ s @ []" by simp
  then show ?thesis unfolding includesStr_iff by blast
qed

lemma includesStr_joinWith_last: "includesStr (joinWith sep (ps @ [s])) s"
proof (cases "ps = []")
  case True
  then show ?thesis using includesStr_self_suffix [of "[]" s] by simp
next
  case False
  then show ?thesis
    using includesStr_self_suffix [of "joinWith sep ps @ sep" s] by (simp add: joinWith_snoc)
qed

lemma snoc_exists: "\<exists>ps. a @ b @ c @ d @ [s] = ps @ [s]"
proof
  show "a @ b @ c @ d @ [s] = (a @ b @ c @ d) @ [s]" by simp
qed

lemma rationaleParts_pregnant:
  "isPregnant patientContext = Some True \<Longrightarrow>
     \<exists>ps. rationaleParts med rule patientContext clinicalContext = ps @ [pregnancySentence]"
  unfolding rationaleParts_def truthyBool_def
  using snoc_exists by simp

lemma generateRationale_pregnant:
  "isPregnant patientContext = Some True \<Longrightarrow>
     includesStr (generateRationale med rule patientContext clinicalContext) pregnancySentence"
  using rationaleParts_pregnant [of patientContext med rule clinicalContext]
  by (auto simp: generateRationale_def includesStr_joinWith_last)

lemma applyRule_rationale:
  "applyRule db patientContext clinicalContext rule = Inr r \<Longrightarrow>
     rationale (primary r) = generateRationale (medication (primary r)) rule patientContext clinicalContext"
  by (auto simp: applyRule_def Let_def split: option.splits sum.splits)

lemma checkPregnancyLactation_contraindicated:
  "isPregnant patientContext = Some True \<Longrightarrow> matchesKeyword (genericName med) pregnancyContraindicated
     \<Longrightarrow> Some med \<in> set meds
     \<Longrightarrow> pregnancyContraindicatedAlert med \<in> set (checkPregnancyLactation patientContext meds)"
  by (force simp: checkPregnancyLactation_def truthyBool_def)

text \<open>
  Claim C10. On the rule path, when the patient's \<open>isPregnant\<close> flag is true, the
  rationale of the primary recommendation contains the sentence "Considered safe for use
  in pregnancy (Category B)." whatever the medication: \<open>generateRationale\<close> adds it for
  every medication and rule, also for a medication that the safety engine's pregnancy
  check reports as contraindicated in pregnancy.
\<close>

theorem rationale_asserts_pregnancy_safety:
  assumes "isPregnant patientContext = Some True"
    and "findMatchingRules db clinicalContext = bestRule # others"
    and "getRecommendations db patientContext clinicalContext = Inr r"
  shows "includesStr (rationale (primary r)) pregnancySentence
       \<and> includesStr (generateRationale med rule patientContext clinicalContext) pregnancySentence
       \<and> (matchesKeyword (genericName (medication (primary r))) pregnancyContraindicated \<longrightarrow>
            pregnancyContraindicatedAlert (medication (primary r))
              \<in> set (checkPregnancyLactation patientContext [Some (medication (primary r))]))"
proof -
  from assms(2,3) have "applyRule db patientContext clinicalContext bestRule = Inr r"
    by (simp add: getRecommendations_def)
  then have "rationale (primary r)
      = generateRationale (medication (primary r)) bestRule patientContext clinicalContext"
    by (rule applyRule_rationale)
  then show ?thesis
    using generateRationale_pregnant [OF assms(1)] checkPregnancyLactation_contraindicated [OF assms(1)]
    by simp
qed

text \<open>
  The atrial-fibrillation rule recommends warfarin to the pregnant sample patient with
  that sentence, while the pregnancy check flags warfarin as contraindicated.
\<close>

theorem rationale_asserts_pregnancy_safety_witness:
  "isPregnant pregnantPatient = Some True
   \<and> findMatchingRules sampleDb atrialFibrillation = [anticoagulationRule]
   \<and> (\<exists>r. getRecommendations sampleDb pregnantPatient atrialFibrillation = Inr r
         \<and> medication (primary r) = warfarin
         \<and> includesStr (rationale (primary r)) pregnancySentence
         \<and> pregnancyContraindicatedAlert warfarin
              \<in> set (checkPregnancyLactation pregnantPatient [Some warfarin]))"
proof -
  have p: "isPregnant pregnantPatient = Some True"
    by (simp add: pregnantPatient_def)
  have m: "findMatchingRules sampleDb atrialFibrillation = [anticoagulationRule]"
    by code_simp
  have "\<not> isl (getRecommendations sampleDb pregnantPatient atrialFibrillation)"
    by code_simp
  then obtain r where r: "getRecommendations sampleDb pregnantPatient atrialFibrillation = Inr r"
    by (cases "getRecommendations sampleDb pregnantPatient atrialFibrillation") auto
  have w: "medication (primary (projr (getRecommendations sampleDb pregnantPatient atrialFibrillation))) = warfarin"
    by code_simp
  have k: "matchesKeyword (genericName warfarin) pregnancyContraindicated"
    by code_simp
  from rationale_asserts_pregnancy_safety [OF p m r] w k r p m show ?thesis
    by auto
qed

section \<open>Safety engine: duplicate therapy\<close>

subsection \<open>The groups built by \<open>groupByTherapeuticClass\<close>\<close>

lemma groupPush_map_of:
  "map_of (groupPush c n g) =
     (map_of g)(c \<mapsto> (case map_of g c of None \<Rightarrow> [n] | Some v \<Rightarrow> v @ [n]))"
  by (induction g) (auto simp: fun_eq_iff)

lemma groupPush_keys:
  "map fst (groupPush c n g) = (if c \<in> fst ` set g then map fst g else map fst g @ [c])"
  by (induction g) (fastforce simp: image_iff)+

lemma groupPush_distinct:
  "distinct (map fst g) \<Longrightarrow> distinct (map fst (groupPush c n g))"
  by (simp add: groupPush_keys)

lemma groupLoop_error:
  "groupLoop g ms = Inl e \<longleftrightarrow>
     e = TypeError \<and> (\<exists>m \<in> set ms. memberClass m \<in> set objectPrototypeKeys)"
  by (induction ms arbitrary: g) auto

lemma groupLoop_total:
  "(\<forall>m \<in> set ms. memberClass m \<notin> set objectPrototypeKeys) \<Longrightarrow> \<exists>g'. groupLoop g ms = Inr g'"
  by (induction ms arbitrary: g) auto

text \<open>
  The invariant of the loop: after the members \<open>ms0\<close> the keys are distinct, there is one
  key per class name seen, and it holds the names of the members of that class in order.
\<close>

lemma groupLoop_groups:
  assumes "groupLoop g ms = Inr g'"
    and "distinct (map fst g)"
    and "\<And>k. map_of g k = (if k \<in> memberClass ` set ms0
                            then Some (map fst (filter (\<lambda>m. memberClass m = k) ms0)) else None)"
  shows "distinct (map fst g')
       \<and> (\<forall>k. map_of g' k = (if k \<in> memberClass ` set (ms0 @ ms)
                              then Some (map fst (filter (\<lambda>m. memberClass m = k) (ms0 @ ms)))
                              else None))"
  using assms
proof (induction ms arbitrary: g ms0)
  case Nil
  then show ?case by simp
next
  case (Cons m rest)
  let ?g1 = "groupPush (memberClass m) (fst m) g"
  from Cons.prems(1) have run: "groupLoop ?g1 rest = Inr g'"
    by (simp split: if_splits)
  have d: "distinct (map fst ?g1)"
    using Cons.prems(2) by (rule groupPush_distinct)
  have none: "filter (\<lambda>x. memberClass x = memberClass m) ms0 = []"
    if "memberClass m \<notin> memberClass ` set ms0"
    using that by (force simp: filter_empty_conv image_iff)
  have inv: "map_of ?g1 k = (if k \<in> memberClass ` set (ms0 @ [m])
                            then Some (map fst (filter (\<lambda>x. memberClass x = k) (ms0 @ [m])))
                            else None)" for k
    using Cons.prems(3) [of k] Cons.prems(3) [of "memberClass m"] none
    by (auto simp: groupPush_map_of)
  from Cons.IH [OF run d inv] show ?case by simp
qed

lemma groupByTherapeuticClass_groups:
  assumes "groupByTherapeuticClass ms = Inr g"
  shows "distinct (map fst g)"
    and "(k, names) \<in> set g \<longleftrightarrow>
           k \<in> memberClass ` set ms \<and> names = map fst (filter (\<lambda>m. memberClass m = k) ms)"
proof -
  from assms have run: "groupLoop [] ms = Inr g"
    by (simp add: groupByTherapeuticClass_def)
  have inv: "distinct (map fst g)
       \<and> (\<forall>k. map_of g k = (if k \<in> memberClass ` set ([] @ ms)
                              then Some (map fst (filter (\<lambda>m. memberClass m = k) ([] @ ms)))
                              else None))"
    by (rule groupLoop_groups [OF run]) simp_all
  then have d: "distinct (map fst g)" by blast
  then show "distinct (map fst g)" .
  have "(k, names) \<in> set g \<longleftrightarrow> map_of g k = Some names"
    using d by simp
  also have "\<dots> \<longleftrightarrow> k \<in> memberClass ` set ms
                       \<and> names = map fst (filter (\<lambda>m. memberClass m = k) ms)"
    using inv by (cases "k \<in> memberClass ` set ms") auto
  finally show "(k, names) \<in> set g \<longleftrightarrow>
           k \<in> memberClass ` set ms \<and> names = map fst (filter (\<lambda>m. memberClass m = k) ms)" .
qed

lemma objectEntries_mset: "mset (objectEntries g) = mset g"
  by (simp add: objectEntries_def)

lemma objectEntries_set: "set (objectEntries g) = set g"
  using objectEntries_mset [of g] by (metis set_mset_mset)

lemma objectEntries_distinct:
  "distinct (map fst g) \<Longrightarrow> distinct (map fst (objectEntries g))"
proof -
  assume "distinct (map fst g)"
  moreover have "mset (map fst (objectEntries g)) = mset (map fst g)"
    by (simp add: objectEntries_mset)
  ultimately show ?thesis
    by (metis mset_eq_imp_distinct_iff)
qed

lemma classAlerts_map:
  "classAlerts g = map classAlert (map fst (filter (\<lambda>e. 1 < length (snd e)) (objectEntries g)))"
proof -
  have "concat (map (\<lambda>(className, drugs). if length drugs > 1 then [classAlert className] else []) es)
      = map classAlert (map fst (filter (\<lambda>e. 1 < length (snd e)) es))" for es :: classGroups
    by (induction es) auto
  then show ?thesis by (simp add: classAlerts_def)
qed

text \<open>The class alerts: one per class name with more than one member.\<close>

lemma classAlerts_keys:
  assumes "groupByTherapeuticClass ms = Inr g"
  shows "\<exists>ks. classAlerts g = map classAlert ks \<and> distinct ks
            \<and> set ks = {c. 1 < length (filter (\<lambda>m. memberClass m = c) ms)}"
proof -
  let ?ks = "map fst (filter (\<lambda>e. 1 < length (snd e)) (objectEntries g))"
  have d: "distinct ?ks"
    using groupByTherapeuticClass_groups(1) [OF assms]
    by (simp add: objectEntries_distinct distinct_map_filter)
  have "set ?ks = {k. \<exists>names. (k, names) \<in> set g \<and> 1 < length names}"
    by (force simp: objectEntries_set)
  also have "\<dots> = {c. 1 < length (filter (\<lambda>m. memberClass m = c) ms)}"
  proof -
    have "c \<in> memberClass ` set ms" if "1 < length (filter (\<lambda>m. memberClass m = c) ms)" for c
    proof -
      from that have "filter (\<lambda>m. memberClass m = c) ms \<noteq> []" by auto
      then show ?thesis by (auto simp: filter_empty_conv)
    qed
    then show ?thesis
      by (auto simp: groupByTherapeuticClass_groups(2) [OF assms])
  qed
  finally show ?thesis
    using d classAlerts_map by blast
qed

lemma classAlert_inj: "classAlert c = classAlert c' \<longleftrightarrow> c = c'"
proof
  assume "classAlert c = classAlert c'"
  then have "message (classAlert c) = message (classAlert c')" by simp
  then show "c = c'" by (simp add: classAlert_def)
qed simp

lemma sameDrugAlerts_mem:
  "al \<in> set (sameDrugAlerts proposedMeds currentMeds) \<Longrightarrow>
     \<exists>p. Some p \<in> set proposedMeds \<and> al = duplicateMedicationAlert p"
  by (auto simp: sameDrugAlerts_def in_concat_map_option split: if_splits)

lemma duplicateMedicationAlert_not_classAlert: "duplicateMedicationAlert p \<noteq> classAlert c"
proof
  assume "duplicateMedicationAlert p = classAlert c"
  then have "message (duplicateMedicationAlert p) = message (classAlert c)" by simp
  then show False by (simp add: duplicateMedicationAlert_def classAlert_def)
qed

lemma count_map_distinct:
  assumes "distinct ks" and "\<And>a b. f a = f b \<longleftrightarrow> a = b"
  shows "count (mset (map f ks)) (f c) = (if c \<in> set ks then 1 else 0)"
  using assms(1)
  by (induction ks) (auto simp: assms(2))

text \<open>
  Claim C8 as the specification states it: one alert for each therapeutic class shared by
  more than one medication among the proposed and current medications, none for a class
  with at most one. The check never learns the class of a current medication (it passes
  \<^verbatim>\<open>therapeuticClass: null\<close> for each) and files every member without a class under
  \<open>Unknown\<close>. Two current medications of different classes give an alert for the class
  \<open>Unknown\<close>; a proposed and a current medication of the same class give none.
\<close>

theorem unknown_class_counterexample:
  "findUniqueMedication sampleDb ''med-warf'' = Some warfarin
   \<and> findUniqueMedication sampleDb ''med-asp'' = Some aspirin
   \<and> therapeuticClass warfarin = Some ''Anticoagulants''
   \<and> therapeuticClass aspirin = Some ''Analgesics and antipyretics''
   \<and> checkDuplicateTherapy []
        [\<lparr> cur_medicationId = ''med-warf'', cur_genericName = ''Warfarin'' \<rparr>,
         \<lparr> cur_medicationId = ''med-asp'', cur_genericName = ''Aspirin'' \<rparr>]
       = Inr [classAlert ''Unknown'']
   \<and> findUniqueMedication sampleDb ''med-ampi'' = Some ampicillin
   \<and> therapeuticClass ampicillin = Some ''Beta-lactam antibiotics''
   \<and> therapeuticClass amoxicillin = Some ''Beta-lactam antibiotics''
   \<and> checkDuplicateTherapy [Some amoxicillin]
        [\<lparr> cur_medicationId = ''med-ampi'', cur_genericName = ''Ampicillin'' \<rparr>]
       = Inr []"
  by code_simp

text \<open>
  Claim C8, amended. The members of the combined list are the resolved proposed
  medications, each under its therapeutic class, or under \<open>Unknown\<close> when it has none
  (null or empty), and the current medications, each under \<open>Unknown\<close>. When the check
  returns, it holds exactly one alert for each class name with more than one member and
  none for a class name with at most one; each is a Warning and can be overridden; every
  other alert of the check is a duplicate-medication alert.
\<close>

theorem class_duplication_alerts:
  assumes "checkDuplicateTherapy proposedMeds currentMeds = Inr als"
  shows "count (mset als) (classAlert c) =
           (if 1 < length (filter (\<lambda>m. memberClass m = c) (classMembers proposedMeds currentMeds))
            then 1 else 0)
       \<and> severity (classAlert c) = WARNING
       \<and> canOverride (classAlert c)
       \<and> (\<forall>al \<in> set als. (\<exists>k. al = classAlert k)
                            \<or> (\<exists>p. Some p \<in> set proposedMeds \<and> al = duplicateMedicationAlert p))
       \<and> (\<forall>cur \<in> set currentMeds. (cur_genericName cur, None) \<in> set (classMembers proposedMeds currentMeds)
                                     \<and> memberClass (cur_genericName cur, None) = ''Unknown'')
       \<and> (\<forall>p. Some p \<in> set proposedMeds \<longrightarrow>
              (genericName p, therapeuticClass p) \<in> set (classMembers proposedMeds currentMeds)
              \<and> memberClass (genericName p, therapeuticClass p)
                  = (case therapeuticClass p of None \<Rightarrow> ''Unknown''
                     | Some t \<Rightarrow> if t = [] then ''Unknown'' else t))"
proof -
  let ?ms = "classMembers proposedMeds currentMeds"
  from assms obtain g where g: "groupByTherapeuticClass ?ms = Inr g"
    and als: "als = sameDrugAlerts proposedMeds currentMeds @ classAlerts g"
    by (auto simp: checkDuplicateTherapy_def split: sum.splits)
  from classAlerts_keys [OF g] obtain ks where ks: "classAlerts g = map classAlert ks"
    "distinct ks" "set ks = {c. 1 < length (filter (\<lambda>m. memberClass m = c) ?ms)}"
    by blast
  have "classAlert c \<notin> set (sameDrugAlerts proposedMeds currentMeds)"
    using sameDrugAlerts_mem duplicateMedicationAlert_not_classAlert by metis
  then have "count (mset (sameDrugAlerts proposedMeds currentMeds)) (classAlert c) = 0"
    by (simp add: count_eq_zero_iff)
  moreover have "count (mset (map classAlert ks)) (classAlert c) = (if c \<in> set ks then 1 else 0)"
    using ks(2) classAlert_inj by (rule count_map_distinct)
  ultimately have cnt: "count (mset als) (classAlert c) =
           (if 1 < length (filter (\<lambda>m. memberClass m = c) ?ms) then 1 else 0)"
    by (simp add: als ks(1,3))
  have shape: "\<forall>al \<in> set als. (\<exists>k. al = classAlert k)
                            \<or> (\<exists>p. Some p \<in> set proposedMeds \<and> al = duplicateMedicationAlert p)"
    using sameDrugAlerts_mem by (auto simp: als ks(1))
  have cur: "\<forall>cur \<in> set currentMeds. (cur_genericName cur, None) \<in> set ?ms
                                     \<and> memberClass (cur_genericName cur, None) = ''Unknown''"
    by (auto simp: classMembers_def memberClass_def orElse_def)
  have res: "Some p \<in> set proposedMeds \<Longrightarrow> p \<in> set (resolved proposedMeds)" for p
    by (simp add: resolved_def in_concat_map_option)
  have prp: "\<forall>p. Some p \<in> set proposedMeds \<longrightarrow>
              (genericName p, therapeuticClass p) \<in> set ?ms
              \<and> memberClass (genericName p, therapeuticClass p)
                  = (case therapeuticClass p of None \<Rightarrow> ''Unknown''
                     | Some t \<Rightarrow> if t = [] then ''Unknown'' else t)"
    using res by (auto simp: classMembers_def memberClass_def orElse_def)
  from cnt shape cur prp show ?thesis
    by (simp add: classAlert_def)
qed

text \<open>
  Two proposed beta-lactams and one current medication: one alert, for the beta-lactams;
  the single member of \<open>Unknown\<close> gives none.
\<close>

theorem class_duplication_alerts_witness:
  "checkDuplicateTherapy [Some amoxicillin, Some (cefalexin \<lparr> therapeuticClass := Some ''Beta-lactam antibiotics'' \<rparr>)]
      [\<lparr> cur_medicationId = ''med-warf'', cur_genericName = ''Warfarin'' \<rparr>]
     = Inr [classAlert ''Beta-lactam antibiotics'']
   \<and> count (mset [classAlert ''Beta-lactam antibiotics'']) (classAlert ''Beta-lactam antibiotics'') = 1
   \<and> count (mset [classAlert ''Beta-lactam antibiotics'']) (classAlert ''Unknown'') = 0"
proof -
  let ?p = "[Some amoxicillin, Some (cefalexin \<lparr> therapeuticClass := Some ''Beta-lactam antibiotics'' \<rparr>)]"
  let ?c = "[\<lparr> cur_medicationId = ''med-warf'', cur_genericName = ''Warfarin'' \<rparr>]"
  have run: "checkDuplicateTherapy ?p ?c = Inr [classAlert ''Beta-lactam antibiotics'']"
    by code_simp
  have n1: "1 < length (filter (\<lambda>m. memberClass m = ''Beta-lactam antibiotics'') (classMembers ?p ?c))"
    by code_simp
  have n2: "\<not> 1 < length (filter (\<lambda>m. memberClass m = ''Unknown'') (classMembers ?p ?c))"
    by code_simp
  from class_duplication_alerts [OF run, of "''Beta-lactam antibiotics''"]
    class_duplication_alerts [OF run, of "''Unknown''"] n1 n2 run
  show ?thesis by simp
qed

section \<open>Safety engine: the order of the proposed medications\<close>

subsection \<open>The pairs of the interaction loop\<close>

lemma proposedPairs_Suc:
  "proposedPairs (Suc n) =
     map (Pair 0) [Suc 0 ..< Suc n] @ map (\<lambda>(i, j). (Suc i, Suc j)) (proposedPairs n)"
proof -
  have "[0 ..< Suc n] = 0 # map Suc [0 ..< n]"
    by (simp add: upt_conv_Cons map_Suc_upt del: upt_Suc)
  then have "proposedPairs (Suc n) =
      map (Pair 0) [Suc 0 ..< Suc n]
      @ concat (map (\<lambda>i. map (Pair (Suc i)) [Suc (Suc i) ..< Suc n]) [0 ..< n])"
    unfolding proposedPairs_def by (simp add: comp_def del: upt_Suc)
  also have "concat (map (\<lambda>i. map (Pair (Suc i)) [Suc (Suc i) ..< Suc n]) [0 ..< n])
      = map (\<lambda>(i, j). (Suc i, Suc j)) (proposedPairs n)"
  proof -
    have "map (Pair (Suc i)) [Suc (Suc i) ..< Suc n]
        = map (\<lambda>(i, j). (Suc i, Suc j)) (map (Pair i) [Suc i ..< n])" for i
      by (simp add: comp_def del: upt_Suc flip: map_Suc_upt)
    then show ?thesis
      unfolding proposedPairs_def by (simp add: map_concat comp_def del: upt_Suc)
  qed
  finally show ?thesis .
qed

lemma proposedPairs_0: "proposedPairs 0 = []"
  by (simp add: proposedPairs_def)

lemma proposedPairs_length: "length (proposedPairs n) = n choose 2"
proof (induction n)
  case 0
  then show ?case by (simp add: proposedPairs_0)
next
  case (Suc n)
  have "Suc n choose 2 = n + (n choose 2)"
    by (simp add: numeral_2_eq_2)
  with Suc show ?case by (simp add: proposedPairs_Suc del: upt_Suc)
qed

lemma proposedPairs_set: "set (proposedPairs n) = {(i, j). i < j \<and> j < n}"
  by (fastforce simp: proposedPairs_def)

lemma proposedPairs_distinct: "distinct (proposedPairs n)"
proof (induction n)
  case 0
  then show ?case by (simp add: proposedPairs_0)
next
  case (Suc n)
  have "inj_on (\<lambda>(i, j). (Suc i, Suc j)) (set (proposedPairs n))"
    by (auto simp: inj_on_def)
  then have "distinct (map (\<lambda>(i, j). (Suc i, Suc j)) (proposedPairs n))"
    using Suc by (simp add: distinct_map)
  moreover have "distinct (map (Pair (0::nat)) [Suc 0 ..< Suc n])"
    by (simp add: distinct_map inj_on_def del: upt_Suc)
  moreover have "set (map (Pair (0::nat)) [Suc 0 ..< Suc n])
      \<inter> set (map (\<lambda>(i, j). (Suc i, Suc j)) (proposedPairs n)) = {}"
    by auto
  ultimately show ?case
    unfolding proposedPairs_Suc by (simp del: upt_Suc map_map set_map)
qed

lemma proposedPairs_allPairs:
  "map (\<lambda>(i, j). (xs ! i, xs ! j)) (proposedPairs (length xs)) = allPairs xs"
proof (induction xs)
  case Nil
  then show ?case by (simp add: proposedPairs_0)
next
  case (Cons x xs)
  have "map (\<lambda>j. (x, (x # xs) ! j)) [Suc 0 ..< Suc (length xs)]
      = map (\<lambda>j. (x, xs ! j)) [0 ..< length xs]"
    by (simp add: comp_def del: upt_Suc flip: map_Suc_upt)
  also have "\<dots> = map (Pair x) (map (\<lambda>j. xs ! j) [0 ..< length xs])"
    by (simp add: comp_def)
  also have "\<dots> = map (Pair x) xs"
    by (simp add: map_nth)
  finally have h: "map (\<lambda>j. (x, (x # xs) ! j)) [Suc 0 ..< Suc (length xs)] = map (Pair x) xs" .
  have t: "map (\<lambda>(i, j). ((x # xs) ! i, (x # xs) ! j)) (map (\<lambda>(i, j). (Suc i, Suc j)) ps)
      = map (\<lambda>(i, j). (xs ! i, xs ! j)) ps" for ps
    by (simp add: comp_def case_prod_unfold)
  show ?case
    using h t [of "proposedPairs (length xs)"] Cons
    by (simp add: proposedPairs_Suc comp_def del: upt_Suc)
qed

subsection \<open>Alerts as multisets\<close>

lemma mset_concat_map:
  "mset (concat (map f xs)) = (\<Sum>x \<in># mset xs. mset (f x))"
  by (induction xs) auto

lemma mset_concat_map_perm:
  "mset xs = mset ys \<Longrightarrow> mset (concat (map f xs)) = mset (concat (map f ys))"
  by (simp add: mset_concat_map)

lemma mset_concat_map_cong:
  "(\<And>x. x \<in> set xs \<Longrightarrow> mset (f x) = mset (g x))
     \<Longrightarrow> mset (concat (map f xs)) = mset (concat (map g xs))"
  by (induction xs) auto

text \<open>
  Moving one element to the front of a list changes the multiset of what a symmetric
  function yields on its pairs by nothing: the element meets every other element once.
\<close>

lemma allPairs_insert:
  assumes sym: "\<And>a b. mset (g a b) = mset (g b a)"
  shows "mset (concat (map (\<lambda>(a, b). g a b) (allPairs (as @ x # bs))))
       = (\<Sum>y \<in># mset (as @ bs). mset (g x y))
         + mset (concat (map (\<lambda>(a, b). g a b) (allPairs (as @ bs))))"
proof (induction as)
  case Nil
  show ?case by (simp add: mset_concat_map comp_def)
next
  case (Cons a as)
  have "mset (concat (map (\<lambda>(a, b). g a b) (allPairs ((a # as) @ x # bs))))
      = (\<Sum>y \<in># mset (as @ x # bs). mset (g a y))
        + mset (concat (map (\<lambda>(a, b). g a b) (allPairs (as @ x # bs))))"
    by (simp add: mset_concat_map comp_def)
  also have "\<dots> = (\<Sum>y \<in># mset (as @ bs). mset (g a y)) + mset (g a x)
        + ((\<Sum>y \<in># mset (as @ bs). mset (g x y))
           + mset (concat (map (\<lambda>(a, b). g a b) (allPairs (as @ bs)))))"
    unfolding Cons.IH by (simp add: ac_simps)
  also have "\<dots> = (\<Sum>y \<in># mset ((a # as) @ bs). mset (g x y))
        + mset (concat (map (\<lambda>(a, b). g a b) (allPairs ((a # as) @ bs))))"
    by (simp add: mset_concat_map comp_def sym [of a x] ac_simps)
  finally show ?case .
qed

lemma allPairs_perm:
  assumes sym: "\<And>a b. mset (g a b) = mset (g b a)"
    and "mset xs = mset ys"
  shows "mset (concat (map (\<lambda>(a, b). g a b) (allPairs xs)))
       = mset (concat (map (\<lambda>(a, b). g a b) (allPairs ys)))"
  using assms(2)
proof (induction xs arbitrary: ys)
  case Nil
  then show ?case by simp
next
  case (Cons x xs)
  then have "x \<in> set ys"
    by (metis list.set_intros(1) mset_eq_setD)
  then obtain as bs where ys: "ys = as @ x # bs"
    by (auto simp: in_set_conv_decomp)
  with Cons.prems have m: "mset xs = mset (as @ bs)"
    by simp
  have "mset (concat (map (\<lambda>(a, b). g a b) (allPairs ys)))
      = (\<Sum>y \<in># mset (as @ bs). mset (g x y))
        + mset (concat (map (\<lambda>(a, b). g a b) (allPairs (as @ bs))))"
    unfolding ys by (rule allPairs_insert [OF sym])
  also have "\<dots> = (\<Sum>y \<in># mset xs. mset (g x y))
        + mset (concat (map (\<lambda>(a, b). g a b) (allPairs xs)))"
    using Cons.IH [OF m] m by simp
  also have "\<dots> = mset (concat (map (\<lambda>(a, b). g a b) (allPairs (x # xs))))"
    by (simp add: mset_concat_map comp_def)
  finally show ?case by simp
qed

subsection \<open>Each check under a permutation\<close>

lemma pairFilter_sym_lookup: "findFirstInteraction db a b = findFirstInteraction db b a"
proof -
  have "(\<lambda>r. pairFilter a b r \<or> pairFilter b a r) = (\<lambda>r. pairFilter b a r \<or> pairFilter a b r)"
    by auto
  then show ?thesis by (simp add: findFirstInteraction_def)
qed

lemma pairLookup_sym: "pairLookup db x y = pairLookup db y x"
  unfolding pairLookup_def by (rule pairFilter_sym_lookup)

lemma pairAlerts_sym: "pairAlerts db x y = pairAlerts db y x"
  by (simp add: pairAlerts_def pairLookup_sym [of db x y])

lemma pair_loop_allPairs:
  "concat (map (\<lambda>(i, j). g (xs ! i) (xs ! j)) (proposedPairs (length xs)))
     = concat (map (\<lambda>(a, b). g a b) (allPairs xs))"
proof -
  have "map (\<lambda>(a, b). g a b) (map (\<lambda>(i, j). (xs ! i, xs ! j)) (proposedPairs (length xs)))
      = map (\<lambda>(i, j). g (xs ! i) (xs ! j)) (proposedPairs (length xs))"
    by (simp add: comp_def case_prod_unfold)
  then show ?thesis by (simp add: proposedPairs_allPairs)
qed

lemma checkAllergies_perm:
  assumes "mset meds' = mset meds"
  shows "mset (checkAllergies pc meds') = mset (checkAllergies pc meds)"
proof -
  have p: "mset (concat (map f meds')) = mset (concat (map f meds))"
    for f :: "Medication option \<Rightarrow> SafetyAlert list"
    using assms by (rule mset_concat_map_perm)
  show ?thesis
    by (simp add: checkAllergies_def p split: option.splits)
qed

lemma checkDrugInteractions_perm:
  assumes "mset meds' = mset meds"
  shows "mset (checkDrugInteractions db meds' cur) = mset (checkDrugInteractions db meds cur)"
proof -
  have "mset (concat (map (\<lambda>(a, b). pairAlerts db a b) (allPairs meds')))
      = mset (concat (map (\<lambda>(a, b). pairAlerts db a b) (allPairs meds)))"
    using assms by (intro allPairs_perm) (simp_all add: pairAlerts_sym [of db])
  moreover have "mset (concat (map (\<lambda>proposedMed. case proposedMed of
                      None \<Rightarrow> []
                    | Some p \<Rightarrow> concat (map (currentAlerts db p) cur)) meds'))
      = mset (concat (map (\<lambda>proposedMed. case proposedMed of
                      None \<Rightarrow> []
                    | Some p \<Rightarrow> concat (map (currentAlerts db p) cur)) meds))"
    using assms by (rule mset_concat_map_perm)
  ultimately show ?thesis
    by (simp add: checkDrugInteractions_def pair_loop_allPairs)
qed

lemma checkContraindications_perm:
  assumes "mset meds' = mset meds"
  shows "mset (checkContraindications pc meds') = mset (checkContraindications pc meds)"
proof (cases "conditions pc")
  case None
  then show ?thesis by (simp add: checkContraindications_def)
next
  case (Some cs)
  have inner: "mset (concat (map f meds')) = mset (concat (map f meds))"
    for f :: "Medication option \<Rightarrow> SafetyAlert list"
    using assms by (rule mset_concat_map_perm)
  show ?thesis
    unfolding checkContraindications_def Some option.case
    by (intro mset_concat_map_cong) (auto simp: inner)
qed

lemma sameDrugAlerts_perm:
  "mset meds' = mset meds \<Longrightarrow> mset (sameDrugAlerts meds' cur) = mset (sameDrugAlerts meds cur)"
  unfolding sameDrugAlerts_def by (rule mset_concat_map_perm)

lemma classMembers_perm:
  assumes "mset meds' = mset meds"
  shows "mset (classMembers meds' cur) = mset (classMembers meds cur)"
proof -
  have "mset (resolved meds') = mset (resolved meds)"
    unfolding resolved_def using assms by (rule mset_concat_map_perm)
  then show ?thesis
    by (simp add: classMembers_def)
qed

lemma groupByTherapeuticClass_error:
  "groupByTherapeuticClass ms = Inl e \<longleftrightarrow>
     e = TypeError \<and> (\<exists>m \<in> set ms. memberClass m \<in> set objectPrototypeKeys)"
  by (simp add: groupByTherapeuticClass_def groupLoop_error)

lemma classAlerts_perm:
  assumes "mset ms' = mset ms"
    and "groupByTherapeuticClass ms' = Inr g'"
    and "groupByTherapeuticClass ms = Inr g"
  shows "mset (classAlerts g') = mset (classAlerts g)"
proof -
  from classAlerts_keys [OF assms(2)] obtain ks' where ks': "classAlerts g' = map classAlert ks'"
    "distinct ks'" "set ks' = {c. 1 < length (filter (\<lambda>m. memberClass m = c) ms')}"
    by blast
  from classAlerts_keys [OF assms(3)] obtain ks where ks: "classAlerts g = map classAlert ks"
    "distinct ks" "set ks = {c. 1 < length (filter (\<lambda>m. memberClass m = c) ms)}"
    by blast
  have "length (filter P ms') = length (filter P ms)" for P
    using assms(1) by (metis mset_filter size_mset)
  then have "set ks' = set ks"
    by (simp add: ks'(3) ks(3))
  then have "mset ks' = mset ks"
    using ks'(2) ks(2) by (simp add: set_eq_iff_mset_eq_distinct)
  then show ?thesis
    by (metis ks'(1) ks(1) mset_map)
qed

lemma checkDuplicateTherapy_perm:
  assumes "mset meds' = mset meds"
  shows "map_sum id mset (checkDuplicateTherapy meds' cur)
       = map_sum id mset (checkDuplicateTherapy meds cur)"
proof -
  let ?ms' = "classMembers meds' cur" and ?ms = "classMembers meds cur"
  have m: "mset ?ms' = mset ?ms"
    using assms by (rule classMembers_perm)
  then have s: "set ?ms' = set ?ms"
    by (rule mset_eq_setD)
  show ?thesis
  proof (cases "groupByTherapeuticClass ?ms")
    case (Inl e)
    then have "groupByTherapeuticClass ?ms' = Inl e"
      using s by (simp add: groupByTherapeuticClass_error)
    with Inl show ?thesis by (simp add: checkDuplicateTherapy_def)
  next
    case (Inr g)
    have "\<not> (\<exists>m \<in> set ?ms. memberClass m \<in> set objectPrototypeKeys)"
      using Inr groupByTherapeuticClass_error [of ?ms TypeError] by auto
    then have "\<not> (\<exists>e. groupByTherapeuticClass ?ms' = Inl e)"
      unfolding groupByTherapeuticClass_error s by blast
    then obtain g' where g': "groupByTherapeuticClass ?ms' = Inr g'"
      by (cases "groupByTherapeuticClass ?ms'") auto
    from classAlerts_perm [OF m g' Inr] sameDrugAlerts_perm [OF assms, of cur] Inr g'
    show ?thesis by (simp add: checkDuplicateTherapy_def)
  qed
qed

lemma checkDoseRanges_perm:
  assumes "mset pms' = mset pms"
  shows "mset (checkDoseRanges pc pms' (map f pms')) = mset (checkDoseRanges pc pms (map f pms))"
proof -
  have z: "zip xs (map f xs) = map (\<lambda>x. (x, f x)) xs" for xs :: "ProposedMedication list"
    by (induction xs) auto
  have "mset (concat (map (doseAlertsFor pc) (map (\<lambda>x. (x, f x)) pms')))
      = mset (concat (map (doseAlertsFor pc) (map (\<lambda>x. (x, f x)) pms)))"
    using assms by (intro mset_concat_map_perm) simp
  then show ?thesis
    by (simp add: checkDoseRanges_def z)
qed

lemma checkOrganFunction_perm:
  assumes "mset meds' = mset meds"
  shows "mset (checkOrganFunction pc meds') = mset (checkOrganFunction pc meds)"
proof -
  have p: "mset (concat (map f meds')) = mset (concat (map f meds))"
    for f :: "Medication option \<Rightarrow> SafetyAlert list"
    using assms by (rule mset_concat_map_perm)
  show ?thesis
    by (simp add: checkOrganFunction_def p split: option.splits)
qed

lemma checkPregnancyLactation_perm:
  assumes "mset meds' = mset meds"
  shows "mset (checkPregnancyLactation pc meds') = mset (checkPregnancyLactation pc meds)"
proof -
  have p: "mset (concat (map f meds')) = mset (concat (map f meds))"
    for f :: "Medication option \<Rightarrow> SafetyAlert list"
    using assms by (rule mset_concat_map_perm)
  show ?thesis
    by (simp add: checkPregnancyLactation_def p)
qed

lemma checkAgeSpecific_perm:
  assumes "mset meds' = mset meds"
  shows "mset (checkAgeSpecific pc meds') = mset (checkAgeSpecific pc meds)"
proof -
  have p: "mset (concat (map f meds')) = mset (concat (map f meds))"
    for f :: "Medication option \<Rightarrow> SafetyAlert list"
    using assms by (rule mset_concat_map_perm)
  show ?thesis
    by (simp add: checkAgeSpecific_def p)
qed

lemma allAlerts_perm:
  assumes "mset pms' = mset pms" and "mset dup' = mset dup"
  shows "mset (allAlerts db pc pms' (map f pms') dup') = mset (allAlerts db pc pms (map f pms) dup)"
proof -
  have m: "mset (map f pms') = mset (map f pms)"
    using assms(1) by simp
  show ?thesis
    unfolding allAlerts_def
    using checkAllergies_perm [OF m] checkDrugInteractions_perm [OF m]
      checkContraindications_perm [OF m] checkDoseRanges_perm [OF assms(1)]
      checkOrganFunction_perm [OF m] checkPregnancyLactation_perm [OF m]
      checkAgeSpecific_perm [OF m] assms(2)
    by simp
qed

text \<open>
  Claim C7. Permuting the proposed medications leaves the outcome of \<open>performSafetyCheck\<close>
  unchanged up to the order of the alerts: the same error, or the same alerts as a
  multiset. The first loop of the interaction check makes one lookup for each element of
  \<open>proposedPairs\<close>: for \<open>n\<close> proposed medications these are \<open>n choose 2\<close> lookups, one
  for each pair of positions \<open>i < j < n\<close> and none twice, and the lookup does not depend on
  the order of its two arguments.
\<close>

theorem proposed_order_irrelevant:
  assumes "mset proposedMedications' = mset proposedMedications"
  shows "map_sum id (\<lambda>r. mset (alerts r)) (performSafetyCheck db patientContext proposedMedications')
       = map_sum id (\<lambda>r. mset (alerts r)) (performSafetyCheck db patientContext proposedMedications)
     \<and> checkDrugInteractions db meds currentMeds
         = concat (map (\<lambda>(i, j). case pairLookup db (meds ! i) (meds ! j) of
                                     None \<Rightarrow> []
                                   | Some interaction \<Rightarrow> [proposedInteractionAlert interaction])
                     (proposedPairs (length meds)))
           @ concat (map (\<lambda>proposedMed. case proposedMed of
                            None \<Rightarrow> []
                          | Some p \<Rightarrow> concat (map (currentAlerts db p) currentMeds)) meds)
     \<and> length (proposedPairs n) = n choose 2
     \<and> distinct (proposedPairs n)
     \<and> set (proposedPairs n) = {(i, j). i < j \<and> j < n}
     \<and> pairLookup db x y = pairLookup db y x"
proof -
  let ?f = "\<lambda>pm. findUniqueMedication db (medicationId pm)"
  let ?cur = "case currentMedications patientContext of None \<Rightarrow> [] | Some c \<Rightarrow> c"
  have m: "mset (map ?f proposedMedications') = mset (map ?f proposedMedications)"
    using assms by simp
  have d: "map_sum id mset (checkDuplicateTherapy (map ?f proposedMedications') ?cur)
         = map_sum id mset (checkDuplicateTherapy (map ?f proposedMedications) ?cur)"
    using m by (rule checkDuplicateTherapy_perm)
  have "map_sum id (\<lambda>r. mset (alerts r)) (performSafetyCheck db patientContext proposedMedications')
      = map_sum id (\<lambda>r. mset (alerts r)) (performSafetyCheck db patientContext proposedMedications)"
  proof (cases "checkDuplicateTherapy (map ?f proposedMedications) ?cur")
    case (Inl e)
    with d have "checkDuplicateTherapy (map ?f proposedMedications') ?cur = Inl e"
      by (cases "checkDuplicateTherapy (map ?f proposedMedications') ?cur") auto
    with Inl show ?thesis by (simp add: performSafetyCheck_def)
  next
    case (Inr dup)
    with d obtain dup' where dup': "checkDuplicateTherapy (map ?f proposedMedications') ?cur = Inr dup'"
      and e: "mset dup' = mset dup"
      by (cases "checkDuplicateTherapy (map ?f proposedMedications') ?cur") auto
    from allAlerts_perm [OF assms e, of db patientContext ?f] Inr dup'
    show ?thesis by (simp add: performSafetyCheck_def Let_def)
  qed
  moreover have "checkDrugInteractions db meds currentMeds
         = concat (map (\<lambda>(i, j). case pairLookup db (meds ! i) (meds ! j) of
                                     None \<Rightarrow> []
                                   | Some interaction \<Rightarrow> [proposedInteractionAlert interaction])
                     (proposedPairs (length meds)))
           @ concat (map (\<lambda>proposedMed. case proposedMed of
                            None \<Rightarrow> []
                          | Some p \<Rightarrow> concat (map (currentAlerts db p) currentMeds)) meds)"
    by (simp add: checkDrugInteractions_def pairAlerts_def)
  ultimately show ?thesis
    using proposedPairs_length [of n] proposedPairs_distinct [of n] proposedPairs_set [of n]
      pairLookup_sym [of db x y]
    by blast
qed

text \<open>Warfarin and aspirin in either order: the one interaction alert, one lookup.\<close>

theorem proposed_order_irrelevant_witness:
  "mset [\<lparr> medicationId = ''med-asp'', dose = ''100mg'' \<rparr>, \<lparr> medicationId = ''med-warf'', dose = ''5mg'' \<rparr>]
     = mset [\<lparr> medicationId = ''med-warf'', dose = ''5mg'' \<rparr>, \<lparr> medicationId = ''med-asp'', dose = ''100mg'' \<rparr>]
   \<and> map_sum id (\<lambda>r. mset (alerts r))
         (performSafetyCheck sampleDb adultPatient
            [\<lparr> medicationId = ''med-asp'', dose = ''100mg'' \<rparr>,
             \<lparr> medicationId = ''med-warf'', dose = ''5mg'' \<rparr>])
       = map_sum id (\<lambda>r. mset (alerts r))
         (performSafetyCheck sampleDb adultPatient
            [\<lparr> medicationId = ''med-warf'', dose = ''5mg'' \<rparr>,
             \<lparr> medicationId = ''med-asp'', dose = ''100mg'' \<rparr>])
   \<and> performSafetyCheck sampleDb adultPatient
         [\<lparr> medicationId = ''med-warf'', dose = ''5mg'' \<rparr>,
          \<lparr> medicationId = ''med-asp'', dose = ''100mg'' \<rparr>]
       = Inr \<lparr> safe = False,
               alerts = [proposedInteractionAlert warfarinAspirin],
               criticalAlerts = [proposedInteractionAlert warfarinAspirin],
               requiresOverride = False \<rparr>
   \<and> proposedPairs 2 = [(0, 1)]
   \<and> length (proposedPairs 2) = 2 choose 2"
proof -
  let ?w = "\<lparr> medicationId = ''med-warf'', dose = ''5mg'' \<rparr>"
  let ?a = "\<lparr> medicationId = ''med-asp'', dose = ''100mg'' \<rparr>"
  have h: "mset [?a, ?w] = mset [?w, ?a]"
    by (simp add: add_mset_commute)
  have run: "performSafetyCheck sampleDb adultPatient [?w, ?a]
       = Inr \<lparr> safe = False,
               alerts = [proposedInteractionAlert warfarinAspirin],
               criticalAlerts = [proposedInteractionAlert warfarinAspirin],
               requiresOverride = False \<rparr>"
    by code_simp
  have p: "proposedPairs 2 = [(0, 1)]"
    by code_simp
  from proposed_order_irrelevant [OF h, of sampleDb adultPatient _ _ 2] h run p
  show ?thesis by simp
qed

section \<open>Safety engine: entries that do not resolve\<close>

text \<open>
  The only exception a check can raise is the \<^verbatim>\<open>TypeError\<close> of the grouping: when no
  class name is a property of \<^verbatim>\<open>Object.prototype\<close>, \<open>performSafetyCheck\<close> returns.
\<close>

lemma performSafetyCheck_total:
  assumes "\<forall>m \<in> set (classMembers
               (map (\<lambda>pm. findUniqueMedication db (medicationId pm)) proposedMedications)
               (case currentMedications patientContext of None \<Rightarrow> [] | Some c \<Rightarrow> c)).
             memberClass m \<notin> set objectPrototypeKeys"
  shows "\<exists>r. performSafetyCheck db patientContext proposedMedications = Inr r"
proof -
  from groupLoop_total [OF assms, of "[]"] obtain g where
    "groupByTherapeuticClass (classMembers
               (map (\<lambda>pm. findUniqueMedication db (medicationId pm)) proposedMedications)
               (case currentMedications patientContext of None \<Rightarrow> [] | Some c \<Rightarrow> c)) = Inr g"
    by (auto simp: groupByTherapeuticClass_def)
  then show ?thesis
    by (simp add: performSafetyCheck_def checkDuplicateTherapy_def Let_def)
qed

subsection \<open>The checks that skip such an entry\<close>

lemma concat_map_filter_nil:
  "(\<And>x. x \<in> set xs \<Longrightarrow> \<not> P x \<Longrightarrow> h x = []) \<Longrightarrow>
     concat (map h (filter P xs)) = concat (map h xs)"
  by (induction xs) auto

lemma concat_map_option_skip:
  "concat (map (\<lambda>med. case med of None \<Rightarrow> [] | Some m \<Rightarrow> f m) (filter (\<lambda>m. m \<noteq> None) meds))
     = concat (map (\<lambda>med. case med of None \<Rightarrow> [] | Some m \<Rightarrow> f m) meds)"
  by (rule concat_map_filter_nil) simp

lemma allPairs_skip:
  assumes "\<And>y. y \<in> set xs \<Longrightarrow> g None y = []" and "\<And>x. x \<in> set xs \<Longrightarrow> g x None = []"
  shows "concat (map (\<lambda>(a, b). g a b) (allPairs (filter (\<lambda>m. m \<noteq> None) xs)))
       = concat (map (\<lambda>(a, b). g a b) (allPairs xs))"
  using assms
proof (induction xs)
  case Nil
  then show ?case by simp
next
  case (Cons x xs)
  have ih: "concat (map (\<lambda>(a, b). g a b) (allPairs (filter (\<lambda>m. m \<noteq> None) xs)))
          = concat (map (\<lambda>(a, b). g a b) (allPairs xs))"
    by (rule Cons.IH) (simp_all add: Cons.prems)
  have row: "concat (map (g x) (filter (\<lambda>m. m \<noteq> None) xs)) = concat (map (g x) xs)"
    by (rule concat_map_filter_nil) (simp add: Cons.prems(2))
  show ?case
  proof (cases x)
    case None
    have "concat (map (g None) xs) = []"
      by (simp add: Cons.prems(1))
    with None ih show ?thesis by (simp add: comp_def)
  next
    case (Some m)
    with ih row show ?thesis by (simp add: comp_def)
  qed
qed

lemma checkAllergies_skip:
  "checkAllergies pc (filter (\<lambda>m. m \<noteq> None) meds) = checkAllergies pc meds"
proof -
  define fm where "fm = filter (\<lambda>m. m \<noteq> None) meds"
  have p: "concat (map (\<lambda>med. case med of None \<Rightarrow> [] | Some m \<Rightarrow> f m) fm)
         = concat (map (\<lambda>med. case med of None \<Rightarrow> [] | Some m \<Rightarrow> f m) meds)"
    for f :: "Medication \<Rightarrow> SafetyAlert list"
    unfolding fm_def by (rule concat_map_option_skip)
  have "checkAllergies pc fm = checkAllergies pc meds"
    by (simp add: checkAllergies_def p split: option.splits)
  then show ?thesis
    unfolding fm_def .
qed

lemma checkContraindications_skip:
  "checkContraindications pc (filter (\<lambda>m. m \<noteq> None) meds) = checkContraindications pc meds"
proof (cases "conditions pc")
  case None
  then show ?thesis by (simp add: checkContraindications_def)
next
  case (Some cs)
  define fm where "fm = filter (\<lambda>m. m \<noteq> None) meds"
  have p: "concat (map (\<lambda>med. case med of None \<Rightarrow> [] | Some m \<Rightarrow> f m) fm)
         = concat (map (\<lambda>med. case med of None \<Rightarrow> [] | Some m \<Rightarrow> f m) meds)"
    for f :: "Medication \<Rightarrow> SafetyAlert list"
    unfolding fm_def by (rule concat_map_option_skip)
  have "checkContraindications pc fm = checkContraindications pc meds"
    unfolding checkContraindications_def Some option.case
    by (intro arg_cong [where f = concat] map_cong refl) (auto simp: p)
  then show ?thesis
    unfolding fm_def .
qed

lemma resolved_skip: "resolved (filter (\<lambda>m. m \<noteq> None) meds) = resolved meds"
  unfolding resolved_def by (rule concat_map_option_skip)

lemma sameDrugAlerts_skip:
  "sameDrugAlerts (filter (\<lambda>m. m \<noteq> None) meds) cur = sameDrugAlerts meds cur"
  unfolding sameDrugAlerts_def by (rule concat_map_option_skip)

lemma checkDuplicateTherapy_skip:
  "checkDuplicateTherapy (filter (\<lambda>m. m \<noteq> None) meds) cur = checkDuplicateTherapy meds cur"
  unfolding checkDuplicateTherapy_def classMembers_def resolved_skip sameDrugAlerts_skip ..

lemma checkOrganFunction_skip:
  "checkOrganFunction pc (filter (\<lambda>m. m \<noteq> None) meds) = checkOrganFunction pc meds"
proof -
  define fm where "fm = filter (\<lambda>m. m \<noteq> None) meds"
  have p: "concat (map (\<lambda>med. case med of None \<Rightarrow> [] | Some m \<Rightarrow> f m) fm)
         = concat (map (\<lambda>med. case med of None \<Rightarrow> [] | Some m \<Rightarrow> f m) meds)"
    for f :: "Medication \<Rightarrow> SafetyAlert list"
    unfolding fm_def by (rule concat_map_option_skip)
  have "checkOrganFunction pc fm = checkOrganFunction pc meds"
    by (simp add: checkOrganFunction_def p split: option.splits)
  then show ?thesis
    unfolding fm_def .
qed

lemma checkPregnancyLactation_skip:
  "checkPregnancyLactation pc (filter (\<lambda>m. m \<noteq> None) meds) = checkPregnancyLactation pc meds"
proof -
  define fm where "fm = filter (\<lambda>m. m \<noteq> None) meds"
  have p: "concat (map (\<lambda>med. case med of None \<Rightarrow> [] | Some m \<Rightarrow> f m) fm)
         = concat (map (\<lambda>med. case med of None \<Rightarrow> [] | Some m \<Rightarrow> f m) meds)"
    for f :: "Medication \<Rightarrow> SafetyAlert list"
    unfolding fm_def by (rule concat_map_option_skip)
  have "checkPregnancyLactation pc fm = checkPregnancyLactation pc meds"
    by (simp add: checkPregnancyLactation_def p)
  then show ?thesis
    unfolding fm_def .
qed

lemma checkAgeSpecific_skip:
  "checkAgeSpecific pc (filter (\<lambda>m. m \<noteq> None) meds) = checkAgeSpecific pc meds"
proof -
  define fm where "fm = filter (\<lambda>m. m \<noteq> None) meds"
  have p: "concat (map (\<lambda>med. case med of None \<Rightarrow> [] | Some m \<Rightarrow> f m) fm)
         = concat (map (\<lambda>med. case med of None \<Rightarrow> [] | Some m \<Rightarrow> f m) meds)"
    for f :: "Medication \<Rightarrow> SafetyAlert list"
    unfolding fm_def by (rule concat_map_option_skip)
  have "checkAgeSpecific pc fm = checkAgeSpecific pc meds"
    by (simp add: checkAgeSpecific_def p)
  then show ?thesis
    unfolding fm_def .
qed

lemma checkDoseRanges_skip:
  "checkDoseRanges pc (filter (\<lambda>pm. f pm \<noteq> None) pms) (map f (filter (\<lambda>pm. f pm \<noteq> None) pms))
     = checkDoseRanges pc pms (map f pms)"
proof -
  have z: "zip xs (map f xs) = map (\<lambda>x. (x, f x)) xs" for xs :: "ProposedMedication list"
    by (induction xs) auto
  have "concat (map (\<lambda>x. doseAlertsFor pc (x, f x)) (filter (\<lambda>pm. f pm \<noteq> None) pms))
      = concat (map (\<lambda>x. doseAlertsFor pc (x, f x)) pms)"
    by (rule concat_map_filter_nil) (simp add: doseAlertsFor_def)
  then show ?thesis
    by (simp add: checkDoseRanges_def z comp_def)
qed

text \<open>
  A lookup with two undefined ids matches no row; one with a single undefined id finds
  nothing exactly when no interaction row names the other medication in either column.
\<close>

lemma pairLookup_None_None: "pairLookup db None None = None"
  by (simp add: pairLookup_def findFirstInteraction_def pairFilter_def find_None_iff)

lemma pairLookup_None_iff:
  "pairLookup db None (Some m) = None \<longleftrightarrow>
     (\<forall>r \<in> set (tbl_drugInteraction db). drug1Id r \<noteq> med_id m \<and> drug2Id r \<noteq> med_id m)"
  by (auto simp: pairLookup_def findFirstInteraction_def pairFilter_def find_None_iff)

lemma checkDrugInteractions_skip:
  assumes "\<And>m. Some m \<in> set meds \<Longrightarrow> pairLookup db None (Some m) = None"
  shows "checkDrugInteractions db (filter (\<lambda>m. m \<noteq> None) meds) cur
       = checkDrugInteractions db meds cur"
proof -
  have n: "pairLookup db None y = None" if "y \<in> set meds" for y
  proof (cases y)
    case None
    then show ?thesis by (simp add: pairLookup_None_None)
  next
    case (Some m)
    with that show ?thesis by (simp add: assms)
  qed
  have l: "pairAlerts db None y = []" and r: "pairAlerts db y None = []" if "y \<in> set meds" for y
    using n [OF that] pairLookup_sym [of db y None] by (simp_all add: pairAlerts_def)
  have "concat (map (\<lambda>(a, b). pairAlerts db a b) (allPairs (filter (\<lambda>m. m \<noteq> None) meds)))
      = concat (map (\<lambda>(a, b). pairAlerts db a b) (allPairs meds))"
    by (rule allPairs_skip) (simp_all add: l r)
  then show ?thesis
    unfolding checkDrugInteractions_def pair_loop_allPairs concat_map_option_skip by simp
qed

text \<open>
  The statement of Claim C9 under the guard that the first loop of the interaction check
  lacks: if no interaction row names a proposed medication that resolves (so that a
  lookup with an undefined id beside it finds nothing), the outcome is that of the list
  without the entries that do not resolve.
\<close>

lemma unresolved_entries_skipped_if_guarded:
  assumes "\<And>pm m. pm \<in> set proposedMedications \<Longrightarrow>
             findUniqueMedication db (medicationId pm) = Some m \<Longrightarrow>
             pairLookup db None (Some m) = None"
  shows "performSafetyCheck db patientContext
           (filter (\<lambda>pm. findUniqueMedication db (medicationId pm) \<noteq> None) proposedMedications)
       = performSafetyCheck db patientContext proposedMedications"
proof -
  let ?f = "\<lambda>pm. findUniqueMedication db (medicationId pm)"
  let ?cur = "case currentMedications patientContext of None \<Rightarrow> [] | Some c \<Rightarrow> c"
  define pms' where "pms' = filter (\<lambda>pm. ?f pm \<noteq> None) proposedMedications"
  define meds where "meds = map ?f proposedMedications"
  define fm where "fm = filter (\<lambda>m. m \<noteq> None) meds"
  have g: "pairLookup db None (Some m) = None" if "Some m \<in> set meds" for m
  proof -
    from that obtain pm where "pm \<in> set proposedMedications" and "?f pm = Some m"
      unfolding meds_def by force
    then show ?thesis by (rule assms)
  qed
  have m: "map ?f pms' = fm"
    unfolding pms'_def fm_def meds_def by (simp add: filter_map comp_def)
  have d: "checkDoseRanges patientContext pms' fm
         = checkDoseRanges patientContext proposedMedications meds"
    unfolding m [symmetric] pms'_def meds_def by (rule checkDoseRanges_skip)
  have i: "checkDrugInteractions db (filter (\<lambda>m. m \<noteq> None) meds) ?cur
         = checkDrugInteractions db meds ?cur"
    by (rule checkDrugInteractions_skip) (rule g)
  have a: "allAlerts db patientContext pms' fm dup
         = allAlerts db patientContext proposedMedications meds dup" for dup
    unfolding allAlerts_def d
    unfolding fm_def checkAllergies_skip i
      checkContraindications_skip checkOrganFunction_skip checkPregnancyLactation_skip
      checkAgeSpecific_skip ..
  have c: "checkDuplicateTherapy fm ?cur = checkDuplicateTherapy meds ?cur"
    unfolding fm_def by (rule checkDuplicateTherapy_skip)
  have "performSafetyCheck db patientContext pms'
      = performSafetyCheck db patientContext proposedMedications"
    unfolding performSafetyCheck_def Let_def m meds_def [symmetric] c a ..
  then show ?thesis
    unfolding pms'_def .
qed

text \<open>
  Amoxicillin is in no interaction row of the sample catalog: beside it the unknown entry
  changes nothing.
\<close>

lemma unresolved_entries_skipped_example:
  "performSafetyCheck sampleDb adultPatient [\<lparr> medicationId = ''med-amox'', dose = ''500mg'' \<rparr>]
     = performSafetyCheck sampleDb adultPatient
         [\<lparr> medicationId = ''med-unknown'', dose = ''1 tablet'' \<rparr>,
          \<lparr> medicationId = ''med-amox'', dose = ''500mg'' \<rparr>]"
proof -
  let ?u = "\<lparr> medicationId = ''med-unknown'', dose = ''1 tablet'' \<rparr>"
  let ?a = "\<lparr> medicationId = ''med-amox'', dose = ''500mg'' \<rparr>"
  have u: "findUniqueMedication sampleDb (medicationId ?u) = None"
    and a: "findUniqueMedication sampleDb (medicationId ?a) = Some amoxicillin"
    by code_simp+
  have l: "pairLookup sampleDb None (Some amoxicillin) = None"
    by code_simp
  have h: "pairLookup sampleDb None (Some m) = None"
    if "pm \<in> set [?u, ?a]" and "findUniqueMedication sampleDb (medicationId pm) = Some m" for pm m
    using that u a l by auto
  have f: "filter (\<lambda>pm. findUniqueMedication sampleDb (medicationId pm) \<noteq> None) [?u, ?a] = [?a]"
    using u a by simp
  show ?thesis
    using unresolved_entries_skipped_if_guarded [of "[?u, ?a]" sampleDb adultPatient, OF h]
    unfolding f by simp
qed

subsection \<open>The pairwise loop does not skip it\<close>

text \<open>
  Claim C9 says that an entry whose id resolves to no medication is skipped by every
  check, so that the alerts are those of the list without it. Seven checks and the second
  loop of the interaction check start with \<^verbatim>\<open>if (!med) continue\<close>. The first loop of
  the interaction check does not: it queries with \<^verbatim>\<open>proposedMeds[i]?.id\<close>, which is
  undefined for such an entry, and a filter with an undefined field matches every row
  that agrees on the other field. With the unknown id beside warfarin, the query returns
  the warfarin-aspirin interaction, and the result holds a Critical interaction alert
  with aspirin, which is neither proposed nor taken; without the unknown entry the same
  request has no alert.
\<close>

theorem unresolved_entry_adds_interaction_alert:
  "findUniqueMedication sampleDb ''med-unknown'' = None
   \<and> currentMedications adultPatient = Some []
   \<and> performSafetyCheck sampleDb adultPatient
         [\<lparr> medicationId = ''med-unknown'', dose = ''1 tablet'' \<rparr>,
          \<lparr> medicationId = ''med-warf'', dose = ''5mg'' \<rparr>]
       = Inr \<lparr> safe = False,
               alerts = [proposedInteractionAlert warfarinAspirin],
               criticalAlerts = [proposedInteractionAlert warfarinAspirin],
               requiresOverride = False \<rparr>
   \<and> performSafetyCheck sampleDb adultPatient
         [\<lparr> medicationId = ''med-warf'', dose = ''5mg'' \<rparr>]
       = Inr \<lparr> safe = True, alerts = [], criticalAlerts = [], requiresOverride = False \<rparr>
   \<and> message (proposedInteractionAlert warfarinAspirin)
       = ''Interaction between Warfarin and Aspirin''"
  by code_simp

end
